theory Spec2Isabelle
  imports Main
begin

section \<open>JavaScript values\<close>

text \<open>
  The two tool adapters \<^verbatim>\<open>N8NTool\<close> and \<^verbatim>\<open>JobSearchTool\<close> handle plain JavaScript
  data: configuration objects, tool inputs, request bodies and response bodies. They are
  modelled by the JSON-like fragment of JavaScript values. An object is its list of own
  properties in insertion order. Numbers are carried around by the adapters (timeouts,
  HTTP status codes, salaries) and never computed with; the model takes the integers.
  Strings are byte strings.
\<close>

datatype jsval =
    JUndefined
  | JNull
  | JBool bool
  | JNum int
  | JStr string
  | JArr "jsval list"
  | JObj "(string \<times> jsval) list"

text \<open>The exception of the source: both adapters throw \<^verbatim>\<open>new Error(message)\<close>.\<close>

datatype js_error = Error string

text \<open>\<^verbatim>\<open>obj[key]\<close> on an object's own properties: a missing key reads as \<^verbatim>\<open>undefined\<close>.\<close>

definition get_prop :: "(string \<times> jsval) list \<Rightarrow> string \<Rightarrow> jsval" where
  "get_prop kvs k = (case map_of kvs k of None \<Rightarrow> JUndefined | Some v \<Rightarrow> v)"

text \<open>\<^verbatim>\<open>key in obj\<close>.\<close>

definition has_prop :: "(string \<times> jsval) list \<Rightarrow> string \<Rightarrow> bool" where
  "has_prop kvs k = (map_of kvs k \<noteq> None)"

text \<open>Property read on any value; the adapters read properties of objects only.\<close>

fun js_get :: "jsval \<Rightarrow> string \<Rightarrow> jsval" where
  "js_get (JObj kvs) k = get_prop kvs k"
| "js_get _ k = JUndefined"

text \<open>Truthiness, as \<^verbatim>\<open>!x\<close> and \<^verbatim>\<open>if (x)\<close> test it.\<close>

fun truthy :: "jsval \<Rightarrow> bool" where
  "truthy JUndefined = False"
| "truthy JNull = False"
| "truthy (JBool b) = b"
| "truthy (JNum n) = (n \<noteq> 0)"
| "truthy (JStr s) = (s \<noteq> [])"
| "truthy (JArr _) = True"
| "truthy (JObj _) = True"

text \<open>\<^verbatim>\<open>a ?? b\<close>: the right operand only when the left one is \<^verbatim>\<open>undefined\<close> or \<^verbatim>\<open>null\<close>.\<close>

fun nullish :: "jsval \<Rightarrow> bool" where
  "nullish JUndefined = True"
| "nullish JNull = True"
| "nullish _ = False"

definition coalesce :: "jsval \<Rightarrow> jsval \<Rightarrow> jsval" where
  "coalesce a b = (if nullish a then b else a)"

text \<open>\<^verbatim>\<open>a || b\<close>.\<close>

definition js_or :: "jsval \<Rightarrow> jsval \<Rightarrow> jsval" where
  "js_or a b = (if truthy a then a else b)"

subsection \<open>Conversion to string\<close>

text \<open>A decimal or hexadecimal digit; every use below passes a number under 16.\<close>

definition digit_char :: "nat \<Rightarrow> char" where
  "digit_char d = ''0123456789abcdef'' ! d"

text \<open>
  The decimal digits of a natural number. JavaScript prints numbers from \<^verbatim>\<open>1e21\<close> on in
  exponent form; the numbers of the adapters (timeouts, status codes) are far below.
\<close>

function show_nat :: "nat \<Rightarrow> string" where
  "show_nat n = (if n < 10 then [digit_char n] else show_nat (n div 10) @ [digit_char (n mod 10)])"
  by pat_completeness auto
termination
  by (relation "measure (\<lambda>n. n)") auto

declare show_nat.simps [simp del]

definition show_int :: "int \<Rightarrow> string" where
  "show_int i = (if i < 0 then ''-'' @ show_nat (nat (- i)) else show_nat (nat i))"

text \<open>\<^verbatim>\<open>Array.prototype.join\<close> on strings.\<close>

fun join :: "string \<Rightarrow> string list \<Rightarrow> string" where
  "join sep [] = []"
| "join sep [x] = x"
| "join sep (x # y # ys) = x @ sep @ join sep (y # ys)"

text \<open>
  The string a template literal \<^verbatim>\<open>`${x}`\<close> inserts for \<^verbatim>\<open>x\<close>: an array joins its
  elements with commas, \<^verbatim>\<open>undefined\<close> and \<^verbatim>\<open>null\<close> elements as empty strings; a plain
  object is \<^verbatim>\<open>[object Object]\<close>.
\<close>

primrec ToString :: "jsval \<Rightarrow> string"
  and ToString_elems :: "jsval list \<Rightarrow> string list"
where
  "ToString JUndefined = ''undefined''"
| "ToString JNull = ''null''"
| "ToString (JBool b) = (if b then ''true'' else ''false'')"
| "ToString (JNum n) = show_int n"
| "ToString (JStr s) = s"
| "ToString (JArr xs) = join '','' (ToString_elems xs)"
| "ToString (JObj kvs) = ''[object Object]''"
| "ToString_elems [] = []"
| "ToString_elems (x # xs) = (if nullish x then [] else ToString x) # ToString_elems xs"

subsection \<open>JSON.stringify(value, null, 2)\<close>

text \<open>
  The serialisation of the language standard with a gap of two spaces: a property whose
  value is \<^verbatim>\<open>undefined\<close> is left out of its object, an \<^verbatim>\<open>undefined\<close> array element is
  written \<^verbatim>\<open>null\<close>, and \<^verbatim>\<open>JSON.stringify(undefined)\<close> is \<^verbatim>\<open>undefined\<close> itself, not a
  string.
\<close>

definition hex2 :: "nat \<Rightarrow> string" where
  "hex2 n = [digit_char (n div 16), digit_char (n mod 16)]"

definition escape_char :: "char \<Rightarrow> string" where
  "escape_char c =
     (if c = CHR 0x22 then [CHR 0x5C, CHR 0x22]
      else if c = CHR 0x5C then [CHR 0x5C, CHR 0x5C]
      else if c = CHR 0x08 then [CHR 0x5C, CHR ''b'']
      else if c = CHR 0x09 then [CHR 0x5C, CHR ''t'']
      else if c = CHR 0x0A then [CHR 0x5C, CHR ''n'']
      else if c = CHR 0x0C then [CHR 0x5C, CHR ''f'']
      else if c = CHR 0x0D then [CHR 0x5C, CHR ''r'']
      else if (of_char c :: nat) < 32 then [CHR 0x5C, CHR ''u'', CHR ''0'', CHR ''0''] @ hex2 (of_char c)
      else [c])"

definition QuoteJSONString :: "string \<Rightarrow> string" where
  "QuoteJSONString s = [CHR 0x22] @ concat (map escape_char s) @ [CHR 0x22]"

definition newline :: string where
  "newline = [CHR 0x0A]"

definition wrap_block :: "string \<Rightarrow> string \<Rightarrow> string \<Rightarrow> string list \<Rightarrow> string" where
  "wrap_block opening closing ind parts =
     (if parts = [] then opening @ closing
      else opening @ newline @ join ('','' @ newline) parts @ newline @ ind @ closing)"

primrec SerializeJSONProperty :: "jsval \<Rightarrow> string \<Rightarrow> string option"
  and SerializeJSONArray :: "jsval list \<Rightarrow> string \<Rightarrow> string list"
  and SerializeJSONObject :: "(string \<times> jsval) list \<Rightarrow> string \<Rightarrow> string list"
  and SerializeJSONMember :: "string \<times> jsval \<Rightarrow> string \<Rightarrow> string list"
where
  "SerializeJSONProperty JUndefined ind = None"
| "SerializeJSONProperty JNull ind = Some ''null''"
| "SerializeJSONProperty (JBool b) ind = Some (if b then ''true'' else ''false'')"
| "SerializeJSONProperty (JNum n) ind = Some (show_int n)"
| "SerializeJSONProperty (JStr s) ind = Some (QuoteJSONString s)"
| "SerializeJSONProperty (JArr xs) ind =
     Some (wrap_block ''['' '']'' ind (SerializeJSONArray xs (ind @ ''  '')))"
| "SerializeJSONProperty (JObj kvs) ind =
     Some (wrap_block ''{'' ''}'' ind (SerializeJSONObject kvs (ind @ ''  '')))"
| "SerializeJSONArray [] ind = []"
| "SerializeJSONArray (x # xs) ind =
     (ind @ (case SerializeJSONProperty x ind of None \<Rightarrow> ''null'' | Some s \<Rightarrow> s))
       # SerializeJSONArray xs ind"
| "SerializeJSONObject [] ind = []"
| "SerializeJSONObject (kv # kvs) ind = SerializeJSONMember kv ind @ SerializeJSONObject kvs ind"
| "SerializeJSONMember (k, v) ind =
     (case SerializeJSONProperty v ind of
        None \<Rightarrow> []
      | Some s \<Rightarrow> [ind @ QuoteJSONString k @ '': '' @ s])"

text \<open>The result of \<^verbatim>\<open>JSON.stringify(v, null, 2)\<close>: a string, or \<^verbatim>\<open>undefined\<close>.\<close>

definition JSON_stringify :: "jsval \<Rightarrow> jsval" where
  "JSON_stringify v = (case SerializeJSONProperty v [] of None \<Rightarrow> JUndefined | Some s \<Rightarrow> JStr s)"

section \<open>Input schemas\<close>

text \<open>
  Both adapters declare their input schema with the zod combinators \<^verbatim>\<open>z.string()\<close>,
  \<^verbatim>\<open>z.number()\<close>, \<^verbatim>\<open>z.boolean()\<close>, \<^verbatim>\<open>z.array(s)\<close>, \<^verbatim>\<open>z.object(shape)\<close>,
  \<^verbatim>\<open>.optional()\<close> and \<^verbatim>\<open>.passthrough()\<close>, and validate with \<^verbatim>\<open>schema.safeParse(input)\<close>.
  A schema is the term the combinators build (\<^verbatim>\<open>.describe(text)\<close> does not take part in
  validation and is left out); \<open>zparse\<close> is the validator of zod 3 on such a term:
  every property of an object schema and every element of an array is visited, each
  mismatch adds one issue with the path of the offending value, and a value is invalid as
  soon as one of its parts is.
\<close>

datatype unknown_keys = Strip | Passthrough

datatype zschema =
    ZString
  | ZNumber
  | ZBoolean
  | ZArray zschema
  | ZOptional zschema
  | ZObject "(string \<times> zschema) list" unknown_keys

datatype path_elem = Key string | Index nat

record issue =
  issue_path :: "path_elem list"
  issue_message :: string

datatype parse_status = OK jsval | INVALID

fun getParsedType :: "jsval \<Rightarrow> string" where
  "getParsedType JUndefined = ''undefined''"
| "getParsedType JNull = ''null''"
| "getParsedType (JBool _) = ''boolean''"
| "getParsedType (JNum _) = ''number''"
| "getParsedType (JStr _) = ''string''"
| "getParsedType (JArr _) = ''array''"
| "getParsedType (JObj _) = ''object''"

text \<open>The issue \<^verbatim>\<open>invalid_type\<close> with the message of the default error map.\<close>

definition invalid_type :: "path_elem list \<Rightarrow> string \<Rightarrow> jsval \<Rightarrow> issue" where
  "invalid_type p expected v =
     \<lparr> issue_path = p,
       issue_message =
         (if v = JUndefined then ''Required''
          else ''Expected '' @ expected @ '', received '' @ getParsedType v) \<rparr>"

definition expect_type :: "path_elem list \<Rightarrow> string \<Rightarrow> jsval \<Rightarrow> issue list \<times> parse_status" where
  "expect_type p expected v =
     (if getParsedType v = expected then ([], OK v) else ([invalid_type p expected v], INVALID))"

fun is_INVALID :: "parse_status \<Rightarrow> bool" where
  "is_INVALID INVALID = True"
| "is_INVALID (OK _) = False"

fun status_value :: "parse_status \<Rightarrow> jsval" where
  "status_value (OK v) = v"
| "status_value INVALID = JUndefined"

text \<open>\<^verbatim>\<open>ParseStatus.mergeArray\<close>: the issues of all elements; invalid when one element is.\<close>

definition mergeArray :: "(issue list \<times> parse_status) list \<Rightarrow> issue list \<times> parse_status" where
  "mergeArray rs =
     (concat (map fst rs),
      if list_ex (\<lambda>r. is_INVALID (snd r)) rs then INVALID
      else OK (JArr (map (\<lambda>r. status_value (snd r)) rs)))"

text \<open>
  The parsed object lists its properties in the order they are written; JavaScript would
  list integer-like keys first, which no property read by name can tell.
\<close>

text \<open>
  \<^verbatim>\<open>ParseStatus.mergeObjectSync\<close> on the pairs (key, alwaysSet, result): a key is written to
  the final object unless it is \<^verbatim>\<open>__proto__\<close>, or its value is \<^verbatim>\<open>undefined\<close> and the key
  was not a property of the input.
\<close>

fun keep_pair :: "string \<times> bool \<times> issue list \<times> parse_status \<Rightarrow> bool" where
  "keep_pair (k, alwaysSet, iss, st) =
     (k \<noteq> ''__proto__'' \<and> (status_value st \<noteq> JUndefined \<or> alwaysSet))"

definition mergeObjectSync ::
  "(string \<times> bool \<times> issue list \<times> parse_status) list \<Rightarrow> issue list \<times> parse_status" where
  "mergeObjectSync pairs =
     (concat (map (\<lambda>(k, alwaysSet, iss, st). iss) pairs),
      if list_ex (\<lambda>(k, alwaysSet, iss, st). is_INVALID st) pairs then INVALID
      else OK (JObj (map (\<lambda>(k, alwaysSet, iss, st). (k, status_value st)) (filter keep_pair pairs))))"

text \<open>The pairs of the keys that the shape does not name, under \<^verbatim>\<open>.passthrough()\<close>.\<close>

definition extra_pairs ::
  "unknown_keys \<Rightarrow> string list \<Rightarrow> (string \<times> jsval) list
     \<Rightarrow> (string \<times> bool \<times> issue list \<times> parse_status) list" where
  "extra_pairs uk shapeKeys kvs =
     (case uk of
        Strip \<Rightarrow> []
      | Passthrough \<Rightarrow>
          map (\<lambda>k. (k, False, [], OK (get_prop kvs k)))
            (filter (\<lambda>k. k \<notin> set shapeKeys) (map fst kvs)))"

primrec zparse :: "zschema \<Rightarrow> path_elem list \<Rightarrow> jsval \<Rightarrow> issue list \<times> parse_status"
  and zparse_shape :: "(string \<times> zschema) list \<Rightarrow> path_elem list \<Rightarrow> (string \<times> jsval) list
        \<Rightarrow> (string \<times> bool \<times> issue list \<times> parse_status) list"
  and zparse_key :: "string \<times> zschema \<Rightarrow> path_elem list \<Rightarrow> (string \<times> jsval) list
        \<Rightarrow> string \<times> bool \<times> issue list \<times> parse_status"
where
  "zparse ZString p v = expect_type p ''string'' v"
| "zparse ZNumber p v = expect_type p ''number'' v"
| "zparse ZBoolean p v = expect_type p ''boolean'' v"
| "zparse (ZArray s) p v =
     (case v of
        JArr xs \<Rightarrow> mergeArray (map (\<lambda>(i, x). zparse s (p @ [Index i]) x) (enumerate 0 xs))
      | _ \<Rightarrow> ([invalid_type p ''array'' v], INVALID))"
| "zparse (ZOptional s) p v = (if v = JUndefined then ([], OK JUndefined) else zparse s p v)"
| "zparse (ZObject shape uk) p v =
     (case v of
        JObj kvs \<Rightarrow> mergeObjectSync (zparse_shape shape p kvs @ extra_pairs uk (map fst shape) kvs)
      | _ \<Rightarrow> ([invalid_type p ''object'' v], INVALID))"
| "zparse_shape [] p kvs = []"
| "zparse_shape (ks # shape) p kvs = zparse_key ks p kvs # zparse_shape shape p kvs"
| "zparse_key (k, s) p kvs = (k, has_prop kvs k, zparse s (p @ [Key k]) (get_prop kvs k))"

text \<open>\<^verbatim>\<open>schema.safeParse(input)\<close>: the parsed data, or the issues.\<close>

definition safeParse :: "zschema \<Rightarrow> jsval \<Rightarrow> issue list + jsval" where
  "safeParse s v = (case zparse s [] v of (iss, OK d) \<Rightarrow> Inr d | (iss, INVALID) \<Rightarrow> Inl iss)"

text \<open>
  The text both adapters build from the issues:
  \<^verbatim>\<open>issues.map(issue => `${issue.path.join('.')}: ${issue.message}`).join(', ')\<close>.
\<close>

fun path_elem_string :: "path_elem \<Rightarrow> string" where
  "path_elem_string (Key k) = k"
| "path_elem_string (Index i) = show_nat i"

definition issue_text :: "issue \<Rightarrow> string" where
  "issue_text i = join ''.'' (map path_elem_string (issue_path i)) @ '': '' @ issue_message i"

definition validation_error :: "issue list \<Rightarrow> js_error" where
  "validation_error issues =
     Error (''Input validation failed: '' @ join '', '' (map issue_text issues))"

section \<open>Configuration and the HTTP client\<close>

text \<open>
  \<^verbatim>\<open>getEnvironmentVariable(name)\<close> reads the process environment, a table from names to
  strings: the variable's string, or \<^verbatim>\<open>undefined\<close>.
\<close>

definition getEnvironmentVariable :: "(string \<times> string) list \<Rightarrow> string \<Rightarrow> jsval" where
  "getEnvironmentVariable env name' = (case map_of env name' of None \<Rightarrow> JUndefined | Some s \<Rightarrow> JStr s)"

text \<open>
  The instance fields of both classes that construction and calls read; the tool's
  description text is left out.
\<close>

record tool =
  name :: string
  override :: jsval
  webhookUrl :: jsval
  apiKey :: jsval
  timeout :: jsval
  schema :: zschema

text \<open>
  \<^verbatim>\<open>axios.post(url, body, {headers, timeout})\<close>: the request the adapter hands to the HTTP
  client, and what the awaited promise does. It resolves with a response (a status the
  client accepts, 2xx by default) or rejects with an error object, of which the adapters
  read \<^verbatim>\<open>code\<close>, \<^verbatim>\<open>response\<close>, \<^verbatim>\<open>message\<close> and \<^verbatim>\<open>constructor.name\<close>.
\<close>

record http_request =
  req_url :: jsval
  req_body :: jsval
  req_headers :: "(string \<times> string) list"
  req_timeout :: jsval

record http_response =
  resp_status :: int
  resp_statusText :: string
  resp_data :: jsval

record http_error =
  err_code :: jsval
  err_response :: "http_response option"
  err_message :: jsval
  err_constructor_name :: string

datatype http_outcome = Resolved http_response | Rejected http_error

text \<open>
  What a call of \<^verbatim>\<open>_call\<close> does: the requests it handed to the HTTP client, in order, and
  how its promise settles: rejected with an error (\<open>Inl\<close>) or fulfilled with the returned
  value (\<open>Inr\<close>).
\<close>

type_synonym call_result = "http_request list \<times> (js_error + jsval)"

section \<open>N8NTool: the structured adapter\<close>

definition N8NTool_schema :: zschema where
  "N8NTool_schema =
     ZObject
       [(''workflow_data'',
         ZObject
           [(''position'', ZOptional ZString),
            (''location'', ZOptional ZString),
            (''skills'', ZOptional (ZArray ZString)),
            (''experience_level'', ZOptional ZString),
            (''job_type'', ZOptional ZString),
            (''salary_min'', ZOptional ZNumber),
            (''salary_max'', ZOptional ZNumber),
            (''remote'', ZOptional ZBoolean)]
           Passthrough),
        (''workflow_name'', ZOptional ZString)]
       Strip"

text \<open>
  \<^verbatim>\<open>new N8NTool(fields)\<close> in the process environment \<open>env\<close>: the exception thrown, or the
  instance. The argument \<^verbatim>\<open>fields\<close> is written \<open>fields'\<close>; it is a plain object, read by
  its own properties. The call \<^verbatim>\<open>super(fields)\<close> of the framework's base class stores
  framework options and takes no part in what follows.
\<close>

definition N8NTool_constructor :: "(string \<times> jsval) list \<Rightarrow> (string \<times> string) list \<Rightarrow> js_error + tool" where
  "N8NTool_constructor fields' env =
     (let envVarWebhookUrl = ''N8N_WEBHOOK_URL'';
          envVarApiKey = ''N8N_API_KEY'';
          envVarTimeout = ''N8N_TIMEOUT'';
          this_override = coalesce (get_prop fields' ''override'') (JBool False);
          this_webhookUrl =
            coalesce (get_prop fields' envVarWebhookUrl) (getEnvironmentVariable env envVarWebhookUrl);
          this_apiKey =
            coalesce (get_prop fields' envVarApiKey) (getEnvironmentVariable env envVarApiKey);
          this_timeout =
            coalesce
              (coalesce (get_prop fields' envVarTimeout) (getEnvironmentVariable env envVarTimeout))
              (JNum 30000)
      in if \<not> truthy this_override \<and> \<not> truthy this_webhookUrl then
           Inl (Error (''Missing '' @ envVarWebhookUrl @ '' environment variable. '' @
                       ''Please configure your N8N webhook URL in the environment settings.''))
         else
           Inr \<lparr> name = ''n8n_workflow'',
                 override = this_override,
                 webhookUrl = this_webhookUrl,
                 apiKey = this_apiKey,
                 timeout = this_timeout,
                 schema = N8NTool_schema \<rparr>)"

text \<open>The headers object of both adapters.\<close>

definition request_headers :: "tool \<Rightarrow> (string \<times> string) list" where
  "request_headers this =
     (let headers = [(''Content-Type'', ''application/json'')]
      in if truthy (apiKey this)
         then headers @ [(''Authorization'', ''Bearer '' @ ToString (apiKey this))]
         else headers)"

text \<open>The \<^verbatim>\<open>catch\<close> block of \<^verbatim>\<open>N8NTool._call\<close>.\<close>

definition N8NTool_catch :: "tool \<Rightarrow> http_error \<Rightarrow> jsval" where
  "N8NTool_catch this error =
     (if err_code error = JStr ''ECONNABORTED'' then
        JSON_stringify (JObj
          [(''success'', JBool False),
           (''error'', JStr ''Workflow execution timeout''),
           (''message'', JStr (''The N8N workflow did not complete within '' @ ToString (timeout this) @
              ''ms. The workflow may still be running on N8N.'')),
           (''timeout'', timeout this)])
      else if err_code error = JStr ''ENOTFOUND'' \<or> err_code error = JStr ''ECONNREFUSED'' then
        JSON_stringify (JObj
          [(''success'', JBool False),
           (''error'', JStr ''Cannot reach N8N server''),
           (''message'', JStr ''Unable to connect to the N8N webhook URL. Please check your N8N instance is running and the URL is correct.''),
           (''webhookUrl'', webhookUrl this)])
      else
        (case err_response error of
           Some response \<Rightarrow>
             JSON_stringify (JObj
               [(''success'', JBool False),
                (''error'', JStr ''N8N workflow execution failed''),
                (''message'', err_message error),
                (''status'', JNum (resp_status response)),
                (''statusText'', JStr (resp_statusText response)),
                (''details'', resp_data response)])
         | None \<Rightarrow>
             JSON_stringify (JObj
               [(''success'', JBool False),
                (''error'', JStr ''Unknown error occurred''),
                (''message'', err_message error),
                (''type'', JStr (err_constructor_name error))])))"

text \<open>
  The arguments of the \<^verbatim>\<open>axios.post\<close> call of \<^verbatim>\<open>N8NTool._call\<close>, for the validated input
  \<open>data\<close>; \<open>sentAt\<close> is the string \<^verbatim>\<open>new Date().toISOString()\<close> gives at that moment.
\<close>

definition N8NTool_request :: "tool \<Rightarrow> string \<Rightarrow> jsval \<Rightarrow> http_request" where
  "N8NTool_request this sentAt data =
     (let workflow_data = js_get data ''workflow_data'';
          workflow_name = js_get data ''workflow_name''
      in \<lparr> req_url = webhookUrl this,
           req_body = JObj
             [(''data'', workflow_data),
              (''workflow'', workflow_name),
              (''timestamp'', JStr sentAt),
              (''source'', JStr ''librechat'')],
           req_headers = request_headers this,
           req_timeout = timeout this \<rparr>)"

text \<open>
  \<^verbatim>\<open>N8NTool._call(input)\<close>. \<open>post\<close> is the HTTP client; \<open>executedAt\<close> is the string the
  second \<^verbatim>\<open>new Date().toISOString()\<close> gives, when the response has arrived.
\<close>

definition N8NTool_call ::
  "tool \<Rightarrow> (http_request \<Rightarrow> http_outcome) \<Rightarrow> string \<Rightarrow> string \<Rightarrow> jsval \<Rightarrow> call_result" where
  "N8NTool_call this post sentAt executedAt input =
     (case safeParse (schema this) input of
        Inl issues \<Rightarrow> ([], Inl (validation_error issues))
      | Inr data \<Rightarrow>
          (let workflow_name = js_get data ''workflow_name'';
               request = N8NTool_request this sentAt data
           in ([request],
               Inr (case post request of
                      Resolved response \<Rightarrow>
                        JSON_stringify (JObj
                          [(''success'', JBool True),
                           (''workflow'', js_or workflow_name (JStr ''default'')),
                           (''result'', resp_data response),
                           (''executedAt'', JStr executedAt),
                           (''status'', JNum (resp_status response))])
                    | Rejected error \<Rightarrow> N8NTool_catch this error))))"

section \<open>JobSearchTool: the free-text adapter\<close>

definition JobSearchTool_schema :: zschema where
  "JobSearchTool_schema = ZObject [(''query'', ZString)] Strip"

definition JobSearchTool_constructor :: "(string \<times> jsval) list \<Rightarrow> (string \<times> string) list \<Rightarrow> js_error + tool" where
  "JobSearchTool_constructor fields' env =
     (let envVarJobSearchWebhookUrl = ''N8N_JOB_SEARCH_WEBHOOK_URL'';
          envVarWebhookUrl = ''N8N_WEBHOOK_URL'';
          envVarApiKey = ''N8N_API_KEY'';
          envVarTimeout = ''N8N_TIMEOUT'';
          this_override = coalesce (get_prop fields' ''override'') (JBool False);
          this_webhookUrl =
            coalesce
              (coalesce
                (coalesce (get_prop fields' envVarJobSearchWebhookUrl)
                   (getEnvironmentVariable env envVarJobSearchWebhookUrl))
                (get_prop fields' envVarWebhookUrl))
              (getEnvironmentVariable env envVarWebhookUrl);
          this_apiKey =
            coalesce (get_prop fields' envVarApiKey) (getEnvironmentVariable env envVarApiKey);
          this_timeout =
            coalesce
              (coalesce (get_prop fields' envVarTimeout) (getEnvironmentVariable env envVarTimeout))
              (JNum 30000)
      in if \<not> truthy this_override \<and> \<not> truthy this_webhookUrl then
           Inl (Error (''Missing '' @ envVarJobSearchWebhookUrl @ '' or '' @ envVarWebhookUrl @
                       '' environment variable. '' @
                       ''Please configure your N8N job search webhook URL in the environment settings.''))
         else
           Inr \<lparr> name = ''job_search'',
                 override = this_override,
                 webhookUrl = this_webhookUrl,
                 apiKey = this_apiKey,
                 timeout = this_timeout,
                 schema = JobSearchTool_schema \<rparr>)"

text \<open>The \<^verbatim>\<open>catch\<close> block of \<^verbatim>\<open>JobSearchTool._call\<close>.\<close>

definition JobSearchTool_catch :: "tool \<Rightarrow> http_error \<Rightarrow> jsval" where
  "JobSearchTool_catch this error =
     (if err_code error = JStr ''ECONNABORTED'' then
        JSON_stringify (JObj
          [(''success'', JBool False),
           (''error'', JStr ''Job search timeout''),
           (''message'', JStr (''The job search did not complete within '' @ ToString (timeout this) @
              ''ms. Please try again with more specific criteria.'')),
           (''timeout'', timeout this)])
      else if err_code error = JStr ''ENOTFOUND'' \<or> err_code error = JStr ''ECONNREFUSED'' then
        JSON_stringify (JObj
          [(''success'', JBool False),
           (''error'', JStr ''Cannot reach job search service''),
           (''message'', JStr ''Unable to connect to the job search service. Please try again later.''),
           (''webhookUrl'', webhookUrl this)])
      else
        (case err_response error of
           Some response \<Rightarrow>
             JSON_stringify (JObj
               [(''success'', JBool False),
                (''error'', JStr ''Job search failed''),
                (''message'', err_message error),
                (''status'', JNum (resp_status response)),
                (''statusText'', JStr (resp_statusText response)),
                (''details'', resp_data response)])
         | None \<Rightarrow>
             JSON_stringify (JObj
               [(''success'', JBool False),
                (''error'', JStr ''Unknown error occurred''),
                (''message'', err_message error),
                (''type'', JStr (err_constructor_name error))])))"

text \<open>The arguments of the \<^verbatim>\<open>axios.post\<close> call of \<^verbatim>\<open>JobSearchTool._call\<close>.\<close>

definition JobSearchTool_request :: "tool \<Rightarrow> jsval \<Rightarrow> http_request" where
  "JobSearchTool_request this data =
     (let query = js_get data ''query''
      in \<lparr> req_url = webhookUrl this,
           req_body = JObj [(''query'', query)],
           req_headers = request_headers this,
           req_timeout = timeout this \<rparr>)"

text \<open>\<^verbatim>\<open>JobSearchTool._call(input)\<close>.\<close>

definition JobSearchTool_call :: "tool \<Rightarrow> (http_request \<Rightarrow> http_outcome) \<Rightarrow> jsval \<Rightarrow> call_result" where
  "JobSearchTool_call this post input =
     (case safeParse (schema this) input of
        Inl issues \<Rightarrow> ([], Inl (validation_error issues))
      | Inr data \<Rightarrow>
          (let request = JobSearchTool_request this data
           in ([request],
               Inr (case post request of
                      Resolved response \<Rightarrow> JSON_stringify (resp_data response)
                    | Rejected error \<Rightarrow> JobSearchTool_catch this error))))"

section \<open>Notions used in the statements\<close>

text \<open>A configuration source that holds no endpoint URL: absent, \<^verbatim>\<open>null\<close> or the empty string.\<close>

definition no_url :: "jsval \<Rightarrow> bool" where
  "no_url v = (v = JUndefined \<or> v = JNull \<or> v = JStr [])"

text \<open>
  An endpoint URL resolvable from the constructor fields or the environment variables, as
  the specification words it: one of the sources holds a non-empty string.
\<close>

fun is_url :: "jsval \<Rightarrow> bool" where
  "is_url (JStr s) = (s \<noteq> [])"
| "is_url _ = False"

fun holds_url :: "jsval list \<Rightarrow> bool" where
  "holds_url [] = False"
| "holds_url (v # vs) = (is_url v \<or> holds_url vs)"

text \<open>The first value of a list of sources that is neither \<^verbatim>\<open>undefined\<close> nor \<^verbatim>\<open>null\<close>.\<close>

fun first_defined :: "jsval list \<Rightarrow> jsval" where
  "first_defined [] = JUndefined"
| "first_defined (v # vs) = (if nullish v then first_defined vs else v)"

text \<open>The first non-empty value of a list of sources.\<close>

fun first_nonempty :: "jsval list \<Rightarrow> jsval" where
  "first_nonempty [] = JUndefined"
| "first_nonempty (v # vs) = (if no_url v then first_nonempty vs else v)"

text \<open>
  The resolution order of the free-text adapter's endpoint as the specification words it:
  the query-specific environment variable, the generic environment variable, then the
  constructor arguments in the same precedence; the first non-empty source wins.
\<close>

definition specified_endpoint_resolution :: "(string \<times> jsval) list \<Rightarrow> (string \<times> string) list \<Rightarrow> jsval" where
  "specified_endpoint_resolution fields' env =
     first_nonempty
       [getEnvironmentVariable env ''N8N_JOB_SEARCH_WEBHOOK_URL'',
        getEnvironmentVariable env ''N8N_WEBHOOK_URL'',
        get_prop fields' ''N8N_JOB_SEARCH_WEBHOOK_URL'',
        get_prop fields' ''N8N_WEBHOOK_URL'']"

text \<open>
  The success envelope of the structured adapter as the specification words it: the
  workflow is the given name, or \<^verbatim>\<open>default\<close> when none was given.
\<close>

definition specified_success_envelope :: "jsval \<Rightarrow> http_response \<Rightarrow> string \<Rightarrow> jsval" where
  "specified_success_envelope given_name response executedAt =
     JObj
       [(''success'', JBool True),
        (''workflow'', if given_name = JUndefined then JStr ''default'' else given_name),
        (''result'', resp_data response),
        (''executedAt'', JStr executedAt),
        (''status'', JNum (resp_status response))]"

text \<open>Schemas built without \<^verbatim>\<open>z.object\<close>: they return a valid value as it is.\<close>

fun object_free :: "zschema \<Rightarrow> bool" where
  "object_free (ZObject shape uk) = False"
| "object_free (ZArray s) = object_free s"
| "object_free (ZOptional s) = object_free s"
| "object_free s = True"

subsection \<open>Instances and endpoints of the examples\<close>

definition n8n_example :: tool where
  "n8n_example =
     \<lparr> name = ''n8n_workflow'', override = JBool False,
       webhookUrl = JStr ''http://n8n.test/webhook/jobs'', apiKey = JStr ''s3cret'',
       timeout = JNum 50, schema = N8NTool_schema \<rparr>"

definition job_search_example :: tool where
  "job_search_example =
     \<lparr> name = ''job_search'', override = JBool False,
       webhookUrl = JStr ''http://n8n.test/webhook/search'', apiKey = JUndefined,
       timeout = JNum 50, schema = JobSearchTool_schema \<rparr>"

text \<open>An endpoint that answers 200 with the request's \<^verbatim>\<open>data\<close> field as \<^verbatim>\<open>{data}\<close>.\<close>

definition echo_endpoint :: "http_request \<Rightarrow> http_outcome" where
  "echo_endpoint r =
     Resolved \<lparr> resp_status = 200, resp_statusText = ''OK'',
                resp_data = JObj [(''data'', js_get (req_body r) ''data'')] \<rparr>"

text \<open>An endpoint that answers 200 with \<^verbatim>\<open>{"jobs":[1,2,3]}\<close>.\<close>

definition jobs_response :: http_response where
  "jobs_response =
     \<lparr> resp_status = 200, resp_statusText = ''OK'',
       resp_data = JObj [(''jobs'', JArr [JNum 1, JNum 2, JNum 3])] \<rparr>"

definition jobs_endpoint :: "http_request \<Rightarrow> http_outcome" where
  "jobs_endpoint r = Resolved jobs_response"

text \<open>An endpoint that never answers: the client gives up with \<^verbatim>\<open>ECONNABORTED\<close>.\<close>

definition timeout_error :: http_error where
  "timeout_error =
     \<lparr> err_code = JStr ''ECONNABORTED'', err_response = None,
       err_message = JStr ''timeout of 50ms exceeded'', err_constructor_name = ''AxiosError'' \<rparr>"

definition silent_endpoint :: "http_request \<Rightarrow> http_outcome" where
  "silent_endpoint r = Rejected timeout_error"

text \<open>An endpoint that rejects every request with the given error.\<close>

definition rejecting_endpoint :: "http_error \<Rightarrow> http_request \<Rightarrow> http_outcome" where
  "rejecting_endpoint e r = Rejected e"

text \<open>A refused connection, a response with status 500, and an error of another kind.\<close>

definition refused_error :: http_error where
  "refused_error =
     \<lparr> err_code = JStr ''ECONNREFUSED'', err_response = None,
       err_message = JStr ''connect ECONNREFUSED 127.0.0.1:5678'',
       err_constructor_name = ''AxiosError'' \<rparr>"

definition upstream_error :: http_error where
  "upstream_error =
     \<lparr> err_code = JStr ''ERR_BAD_RESPONSE'',
       err_response = Some \<lparr> resp_status = 500, resp_statusText = ''Internal Server Error'',
                             resp_data = JObj [(''message'', JStr ''Workflow could not be started'')] \<rparr>,
       err_message = JStr ''Request failed with status code 500'',
       err_constructor_name = ''AxiosError'' \<rparr>"

definition unknown_error :: http_error where
  "unknown_error =
     \<lparr> err_code = JUndefined, err_response = None,
       err_message = JStr ''Invalid URL'', err_constructor_name = ''TypeError'' \<rparr>"

section \<open>Auxiliary facts\<close>

subsection \<open>Construction\<close>

lemma no_url_not_truthy: "no_url v \<Longrightarrow> \<not> truthy v"
  by (auto simp: no_url_def)

lemma coalesce_no_url: "no_url a \<Longrightarrow> no_url b \<Longrightarrow> no_url (coalesce a b)"
  by (auto simp: no_url_def coalesce_def)

lemma truthy_coalesce_False [simp]: "truthy (coalesce v (JBool False)) = truthy v"
  by (cases v) (simp_all add: coalesce_def)

lemma nullish_getEnvironmentVariable:
  "nullish (getEnvironmentVariable env k) \<Longrightarrow> getEnvironmentVariable env k = JUndefined"
  by (simp add: getEnvironmentVariable_def split: option.splits)

lemma coalesce_first_defined:
  "coalesce (coalesce (coalesce a b) c) (getEnvironmentVariable env k) =
     first_defined [a, b, c, getEnvironmentVariable env k]"
  by (simp add: coalesce_def nullish_getEnvironmentVariable)

lemma N8NTool_constructor_timeout:
  "N8NTool_constructor fields' env = Inr this \<Longrightarrow>
   timeout this = coalesce (coalesce (get_prop fields' ''N8N_TIMEOUT'') (getEnvironmentVariable env ''N8N_TIMEOUT'')) (JNum 30000)"
  by (auto simp add: N8NTool_constructor_def Let_def split: if_splits)

lemma JobSearchTool_constructor_timeout:
  "JobSearchTool_constructor fields' env = Inr this \<Longrightarrow>
   timeout this = coalesce (coalesce (get_prop fields' ''N8N_TIMEOUT'') (getEnvironmentVariable env ''N8N_TIMEOUT'')) (JNum 30000)"
  by (auto simp add: JobSearchTool_constructor_def Let_def split: if_splits)



lemma N8NTool_constructor_schema:
  "N8NTool_constructor fields' env = Inr this \<Longrightarrow> schema this = N8NTool_schema"
  by (auto simp add: N8NTool_constructor_def Let_def split: if_splits)

lemma JobSearchTool_constructor_schema:
  "JobSearchTool_constructor fields' env = Inr this \<Longrightarrow> schema this = JobSearchTool_schema"
  by (auto simp add: JobSearchTool_constructor_def Let_def split: if_splits)

subsection \<open>The two outcomes of a call\<close>

lemma N8NTool_call_invalid:
  "safeParse (schema this) input = Inl issues \<Longrightarrow>
   N8NTool_call this post sentAt executedAt input = ([], Inl (validation_error issues))"
  by (simp add: N8NTool_call_def)

lemma N8NTool_call_valid:
  "safeParse (schema this) input = Inr d \<Longrightarrow>
   N8NTool_call this post sentAt executedAt input =
     ([N8NTool_request this sentAt d],
      Inr (case post (N8NTool_request this sentAt d) of
             Resolved response \<Rightarrow>
               JSON_stringify (JObj
                 [(''success'', JBool True),
                  (''workflow'', js_or (js_get d ''workflow_name'') (JStr ''default'')),
                  (''result'', resp_data response),
                  (''executedAt'', JStr executedAt),
                  (''status'', JNum (resp_status response))])
           | Rejected error \<Rightarrow> N8NTool_catch this error))"
  by (simp add: N8NTool_call_def Let_def)

lemma JobSearchTool_call_invalid:
  "safeParse (schema this) input = Inl issues \<Longrightarrow>
   JobSearchTool_call this post input = ([], Inl (validation_error issues))"
  by (simp add: JobSearchTool_call_def)

lemma JobSearchTool_call_valid:
  "safeParse (schema this) input = Inr d \<Longrightarrow>
   JobSearchTool_call this post input =
     ([JobSearchTool_request this d],
      Inr (case post (JobSearchTool_request this d) of
             Resolved response \<Rightarrow> JSON_stringify (resp_data response)
           | Rejected error \<Rightarrow> JobSearchTool_catch this error))"
  by (simp add: JobSearchTool_call_def Let_def)

lemma N8NTool_call_raises: "isl (snd (N8NTool_call this post sentAt executedAt input)) = isl (safeParse (schema this) input)"
  by (cases "safeParse (schema this) input") (simp_all add: N8NTool_call_invalid N8NTool_call_valid)

lemma JobSearchTool_call_raises: "isl (snd (JobSearchTool_call this post input)) = isl (safeParse (schema this) input)"
  by (cases "safeParse (schema this) input") (simp_all add: JobSearchTool_call_invalid JobSearchTool_call_valid)

lemma JSON_stringify_JObj:
  "JSON_stringify (JObj obj) = JStr (wrap_block ''{'' ''}'' [] (SerializeJSONObject obj ''  ''))"
  by (simp add: JSON_stringify_def)

lemma N8NTool_catch_string: "\<exists>s. N8NTool_catch this e = JStr s"
  by (simp add: N8NTool_catch_def JSON_stringify_JObj split: option.split)

lemma JobSearchTool_catch_string: "\<exists>s. JobSearchTool_catch this e = JStr s"
  by (simp add: JobSearchTool_catch_def JSON_stringify_JObj split: option.split)

lemma coalesce_first_defined2:
  "coalesce a (getEnvironmentVariable env k) = first_defined [a, getEnvironmentVariable env k]"
  by (simp add: coalesce_def nullish_getEnvironmentVariable)

lemma N8NTool_constructor_cases:
  "N8NTool_constructor fields' env =
     (if \<not> truthy (get_prop fields' ''override'') \<and>
         \<not> truthy (first_defined [get_prop fields' ''N8N_WEBHOOK_URL'',
                      getEnvironmentVariable env ''N8N_WEBHOOK_URL''])
      then Inl (Error ''Missing N8N_WEBHOOK_URL environment variable. Please configure your N8N webhook URL in the environment settings.'')
      else Inr \<lparr> name = ''n8n_workflow'',
                 override = coalesce (get_prop fields' ''override'') (JBool False),
                 webhookUrl = first_defined [get_prop fields' ''N8N_WEBHOOK_URL'',
                      getEnvironmentVariable env ''N8N_WEBHOOK_URL''],
                 apiKey = coalesce (get_prop fields' ''N8N_API_KEY'') (getEnvironmentVariable env ''N8N_API_KEY''),
                 timeout = coalesce (coalesce (get_prop fields' ''N8N_TIMEOUT'')
                      (getEnvironmentVariable env ''N8N_TIMEOUT'')) (JNum 30000),
                 schema = N8NTool_schema \<rparr>)"
  unfolding coalesce_first_defined2 [symmetric]
  by (simp add: N8NTool_constructor_def Let_def)

lemma JobSearchTool_constructor_cases:
  "JobSearchTool_constructor fields' env =
     (if \<not> truthy (get_prop fields' ''override'') \<and>
         \<not> truthy (first_defined [get_prop fields' ''N8N_JOB_SEARCH_WEBHOOK_URL'',
                      getEnvironmentVariable env ''N8N_JOB_SEARCH_WEBHOOK_URL'',
                      get_prop fields' ''N8N_WEBHOOK_URL'',
                      getEnvironmentVariable env ''N8N_WEBHOOK_URL''])
      then Inl (Error ''Missing N8N_JOB_SEARCH_WEBHOOK_URL or N8N_WEBHOOK_URL environment variable. Please configure your N8N job search webhook URL in the environment settings.'')
      else Inr \<lparr> name = ''job_search'',
                 override = coalesce (get_prop fields' ''override'') (JBool False),
                 webhookUrl = first_defined [get_prop fields' ''N8N_JOB_SEARCH_WEBHOOK_URL'',
                      getEnvironmentVariable env ''N8N_JOB_SEARCH_WEBHOOK_URL'',
                      get_prop fields' ''N8N_WEBHOOK_URL'',
                      getEnvironmentVariable env ''N8N_WEBHOOK_URL''],
                 apiKey = coalesce (get_prop fields' ''N8N_API_KEY'') (getEnvironmentVariable env ''N8N_API_KEY''),
                 timeout = coalesce (coalesce (get_prop fields' ''N8N_TIMEOUT'')
                      (getEnvironmentVariable env ''N8N_TIMEOUT'')) (JNum 30000),
                 schema = JobSearchTool_schema \<rparr>)"
  unfolding coalesce_first_defined [symmetric]
  by (simp add: JobSearchTool_constructor_def Let_def)

lemma first_defined_no_url: "list_all no_url vs \<Longrightarrow> \<not> truthy (first_defined vs)"
  by (induction vs) (auto simp add: no_url_def)

subsection \<open>Validation\<close>

lemma get_prop_Cons: "get_prop ((k', v) # kvs) k = (if k = k' then v else get_prop kvs k)"
  by (simp add: get_prop_def)

lemma get_prop_Nil: "get_prop [] k = JUndefined"
  by (simp add: get_prop_def)

lemma get_prop_absent: "k \<notin> fst ` set kvs \<Longrightarrow> get_prop kvs k = JUndefined"
  by (simp add: get_prop_def map_of_eq_None_iff [THEN iffD2])

lemma zparse_shape_elem:
  "(k, al, iss, st) \<in> set (zparse_shape shape p kvs) \<Longrightarrow>
   \<exists>s. (k, s) \<in> set shape \<and> (iss, st) = zparse s (p @ [Key k]) (get_prop kvs k) \<and> al = has_prop kvs k"
  by (induction shape) auto

lemma zparse_shape_keys: "map fst (zparse_shape shape p kvs) = map fst shape"
  by (induction shape) auto

lemma extra_pairs_elem:
  "(k, al, iss, st) \<in> set (extra_pairs uk keys kvs) \<Longrightarrow>
   st = OK (get_prop kvs k) \<and> iss = [] \<and> \<not> al \<and> k \<in> fst ` set kvs \<and> k \<notin> set keys"
  by (cases uk) (auto simp add: extra_pairs_def)

lemma mergeObjectSync_INVALID:
  "is_INVALID (snd (mergeObjectSync pairs)) \<Longrightarrow> \<exists>k al iss st. (k, al, iss, st) \<in> set pairs \<and> is_INVALID st"
  by (auto simp add: mergeObjectSync_def list_ex_iff split: if_splits)

lemma mergeObjectSync_issues:
  "(k, al, iss, st) \<in> set pairs \<Longrightarrow> iss \<noteq> [] \<Longrightarrow> fst (mergeObjectSync pairs) \<noteq> []"
  by (force simp add: mergeObjectSync_def)

lemma mergeArray_INVALID:
  "is_INVALID (snd (mergeArray rs)) \<Longrightarrow> \<exists>r \<in> set rs. is_INVALID (snd r)"
  by (auto simp add: mergeArray_def list_ex_iff split: if_splits)

lemma mergeArray_issues:
  "r \<in> set rs \<Longrightarrow> fst r \<noteq> [] \<Longrightarrow> fst (mergeArray rs) \<noteq> []"
  by (force simp add: mergeArray_def)

text \<open>An invalid value always comes with an issue.\<close>

lemma zparse_INVALID_issues:
  "is_INVALID (snd (zparse s p v)) \<Longrightarrow> fst (zparse s p v) \<noteq> []"
proof (induction s arbitrary: p v)
  case (ZArray s)
  show ?case
  proof (cases v)
    case (JArr xs)
    let ?rs = "map (\<lambda>(i, x). zparse s (p @ [Index i]) x) (enumerate 0 xs)"
    from ZArray.prems JArr have "is_INVALID (snd (mergeArray ?rs))" by simp
    then obtain r where r: "r \<in> set ?rs" "is_INVALID (snd r)"
      using mergeArray_INVALID by blast
    then obtain i x where "r = zparse s (p @ [Index i]) x" by auto
    with r ZArray.IH have "fst r \<noteq> []" by simp
    with r show ?thesis using JArr mergeArray_issues [of r ?rs] by simp
  qed simp_all
next
  case (ZObject shape uk)
  show ?case
  proof (cases v)
    case (JObj kvs)
    let ?pairs = "zparse_shape shape p kvs @ extra_pairs uk (map fst shape) kvs"
    from ZObject.prems JObj have "is_INVALID (snd (mergeObjectSync ?pairs))" by simp
    then obtain k al iss st where e: "(k, al, iss, st) \<in> set ?pairs" "is_INVALID st"
      using mergeObjectSync_INVALID by blast
    then have "(k, al, iss, st) \<in> set (zparse_shape shape p kvs)"
      using extra_pairs_elem [of k al iss st uk "map fst shape" kvs] by auto
    then obtain s where s: "(k, s) \<in> set shape" "(iss, st) = zparse s (p @ [Key k]) (get_prop kvs k)"
      using zparse_shape_elem by blast
    then have "is_INVALID (snd (zparse s (p @ [Key k]) (get_prop kvs k))) \<Longrightarrow>
        fst (zparse s (p @ [Key k]) (get_prop kvs k)) \<noteq> []"
      using ZObject.IH [of "(k, s)" s] by simp
    with s e have "iss \<noteq> []" by (metis fst_conv snd_conv)
    with e show ?thesis using JObj mergeObjectSync_issues [of k al iss st ?pairs] by simp
  qed simp_all
qed (auto simp add: expect_type_def split: if_splits)

lemma safeParse_issues_nonempty: "safeParse s v = Inl issues \<Longrightarrow> issues \<noteq> []"
  using zparse_INVALID_issues [of s "[]" v]
  by (auto simp add: safeParse_def split: prod.splits parse_status.splits)

text \<open>A schema without object schemas returns a valid value unchanged.\<close>

lemma zparse_object_free:
  "object_free s \<Longrightarrow> snd (zparse s p v) = OK v' \<Longrightarrow> v' = v"
proof (induction s arbitrary: p v v')
  case (ZArray s)
  show ?case
  proof (cases v)
    case (JArr xs)
    let ?rs = "map (\<lambda>(i, x). zparse s (p @ [Index i]) x) (enumerate 0 xs)"
    from ZArray.prems JArr have ok: "\<not> list_ex (\<lambda>r. is_INVALID (snd r)) ?rs"
      and v': "v' = JArr (map (\<lambda>r. status_value (snd r)) ?rs)"
      by (auto simp add: mergeArray_def split: if_splits)
    have elem: "status_value (snd (zparse s (p @ [Index i]) x)) = x" if "(i, x) \<in> set (enumerate 0 xs)" for i x
    proof -
      from ok that have "\<not> is_INVALID (snd (zparse s (p @ [Index i]) x))"
        by (force simp add: list_ex_iff)
      then obtain y where y: "snd (zparse s (p @ [Index i]) x) = OK y"
        by (cases "snd (zparse s (p @ [Index i]) x)") auto
      with ZArray.IH ZArray.prems(1) have "y = x" by simp
      with y show ?thesis by simp
    qed
    have "map (\<lambda>r. status_value (snd r)) ?rs = map snd (enumerate 0 xs)"
      unfolding map_map by (rule map_cong [OF refl]) (use elem in auto)
    then have "map (\<lambda>r. status_value (snd r)) ?rs = xs" by simp
    with v' JArr show ?thesis by simp
  qed (use ZArray.prems in simp_all)
qed (auto simp add: expect_type_def split: if_splits)

text \<open>The value the merged object holds under a key that every pair maps to the same value.\<close>

lemma merged_get_prop:
  "k \<noteq> ''__proto__'' \<Longrightarrow>
   \<forall>al iss st. (k, al, iss, st) \<in> set pairs \<longrightarrow> status_value st = V \<Longrightarrow>
   k \<notin> fst ` set pairs \<longrightarrow> V = JUndefined \<Longrightarrow>
   get_prop (map (\<lambda>(k, alwaysSet, iss, st). (k, status_value st)) (filter keep_pair pairs)) k = V"
proof (induction pairs)
  case Nil
  then show ?case by (simp add: get_prop_Nil)
next
  case (Cons pr pairs)
  obtain k' al iss st where pr: "pr = (k', al, iss, st)" by (cases pr) auto
  from Cons.prems(2) have all: "\<forall>al iss st. (k, al, iss, st) \<in> set pairs \<longrightarrow> status_value st = V"
    by simp
  show ?case
  proof (cases "k' = k")
    case True
    have V: "status_value st = V"
      using Cons.prems(2) pr True by simp
    show ?thesis
    proof (cases "keep_pair pr")
      case True
      with pr \<open>k' = k\<close> V show ?thesis by (simp add: get_prop_Cons)
    next
      case False
      with pr \<open>k' = k\<close> V Cons.prems(1) have "V = JUndefined" by simp
      then have "k \<notin> fst ` set pairs \<longrightarrow> V = JUndefined" by simp
      from Cons.IH [OF Cons.prems(1) all this] False show ?thesis by simp
    qed
  next
    case False
    with pr Cons.prems(3) have "k \<notin> fst ` set pairs \<longrightarrow> V = JUndefined" by simp
    from Cons.IH [OF Cons.prems(1) all this] pr False show ?thesis
      by (simp add: get_prop_Cons)
  qed
qed

text \<open>
  A valid object of an object schema with passed-through unknown keys and properties
  without nested object schemas: the parsed object reads like the input under every key
  but \<^verbatim>\<open>__proto__\<close>.
\<close>

lemma zparse_passthrough_get_prop:
  assumes free: "\<And>k s. (k, s) \<in> set shape \<Longrightarrow> object_free s"
    and ok: "snd (zparse (ZObject shape Passthrough) p (JObj kvs)) = OK d"
    and k: "k \<noteq> ''__proto__''"
  shows "js_get d k = get_prop kvs k"
proof -
  let ?pairs = "zparse_shape shape p kvs @ extra_pairs Passthrough (map fst shape) kvs"
  from ok have valid: "\<not> list_ex (\<lambda>(k, alwaysSet, iss, st). is_INVALID st) ?pairs"
    and d: "d = JObj (map (\<lambda>(k, alwaysSet, iss, st). (k, status_value st)) (filter keep_pair ?pairs))"
    by (auto simp add: mergeObjectSync_def split: if_splits)
  have same: "status_value st = get_prop kvs k" if m: "(k, al, iss, st) \<in> set ?pairs" for al iss st
  proof (cases "(k, al, iss, st) \<in> set (zparse_shape shape p kvs)")
    case True
    then obtain s where s: "(k, s) \<in> set shape" "(iss, st) = zparse s (p @ [Key k]) (get_prop kvs k)"
      using zparse_shape_elem by blast
    from valid m have "\<not> is_INVALID st" by (force simp add: list_ex_iff)
    then obtain y where y: "st = OK y" by (cases st) auto
    with s have "snd (zparse s (p @ [Key k]) (get_prop kvs k)) = OK y" by (metis snd_conv)
    with free s(1) have "y = get_prop kvs k" using zparse_object_free by blast
    with y show ?thesis by simp
  next
    case False
    with m have "(k, al, iss, st) \<in> set (extra_pairs Passthrough (map fst shape) kvs)" by simp
    then show ?thesis using extra_pairs_elem by fastforce
  qed
  have absent: "get_prop kvs k = JUndefined" if n: "k \<notin> fst ` set ?pairs"
  proof -
    have "k \<notin> fst ` set kvs"
    proof
      assume "k \<in> fst ` set kvs"
      moreover have "fst ` set (zparse_shape shape p kvs) = fst ` set shape"
        by (metis zparse_shape_keys set_map)
      with n have "k \<notin> set (map fst shape)"
        by (simp add: image_Un)
      ultimately have "(k, False, [], OK (get_prop kvs k)) \<in> set (extra_pairs Passthrough (map fst shape) kvs)"
        by (auto simp add: extra_pairs_def)
      with n show False by force
    qed
    then show ?thesis by (rule get_prop_absent)
  qed
  have "get_prop (map (\<lambda>(k, alwaysSet, iss, st). (k, status_value st)) (filter keep_pair ?pairs)) k
      = get_prop kvs k"
    by (rule merged_get_prop [OF k]) (use same absent in blast)+
  with d show ?thesis by simp
qed

lemma zparse_ZObject_OK_is_object:
  "snd (zparse (ZObject shape uk) p v) = OK y \<Longrightarrow> \<exists>kvs. v = JObj kvs"
  by (cases v) simp_all

lemma zparse_optional_string_OK:
  "snd (zparse (ZOptional ZString) p v) = OK y \<Longrightarrow> y = v \<and> (v = JUndefined \<or> (\<exists>s. v = JStr s))"
  by (cases v) (auto simp add: expect_type_def split: if_splits)

lemma not_INVALID_OK: "\<not> is_INVALID st \<Longrightarrow> \<exists>y. st = OK y"
  by (cases st) auto

text \<open>What a valid input of the structured adapter looks like, and what its parsed data is.\<close>

lemma N8NTool_schema_valid:
  assumes "safeParse N8NTool_schema input = Inr d"
  shows "\<exists>kvs wd. input = JObj kvs \<and> get_prop kvs ''workflow_data'' = JObj wd
           \<and> (\<forall>k. k \<noteq> ''__proto__'' \<longrightarrow> js_get (js_get d ''workflow_data'') k = get_prop wd k)
           \<and> js_get d ''workflow_name'' = get_prop kvs ''workflow_name''
           \<and> (get_prop kvs ''workflow_name'' = JUndefined \<or> (\<exists>s. get_prop kvs ''workflow_name'' = JStr s))"
proof -
  define inner where "inner =
    [(''position'', ZOptional ZString),
     (''location'', ZOptional ZString),
     (''skills'', ZOptional (ZArray ZString)),
     (''experience_level'', ZOptional ZString),
     (''job_type'', ZOptional ZString),
     (''salary_min'', ZOptional ZNumber),
     (''salary_max'', ZOptional ZNumber),
     (''remote'', ZOptional ZBoolean)]"
  have free: "\<And>k s. (k, s) \<in> set inner \<Longrightarrow> object_free s"
    by (auto simp add: inner_def)
  have schema: "N8NTool_schema =
      ZObject [(''workflow_data'', ZObject inner Passthrough), (''workflow_name'', ZOptional ZString)] Strip"
    by (simp add: N8NTool_schema_def inner_def)
  from assms have ok: "snd (zparse N8NTool_schema [] input) = OK d"
    by (auto simp add: safeParse_def split: prod.splits parse_status.splits)
  then obtain kvs where input: "input = JObj kvs"
    unfolding schema using zparse_ZObject_OK_is_object by blast
  define r1 where "r1 = zparse (ZObject inner Passthrough) [Key ''workflow_data''] (get_prop kvs ''workflow_data'')"
  define r2 where "r2 = zparse (ZOptional ZString) [Key ''workflow_name''] (get_prop kvs ''workflow_name'')"
  have parse: "zparse N8NTool_schema [] input =
      mergeObjectSync
        [(''workflow_data'', has_prop kvs ''workflow_data'', r1),
         (''workflow_name'', has_prop kvs ''workflow_name'', r2)]"
    unfolding schema input r1_def r2_def by (simp add: extra_pairs_def)
  from ok have v1: "\<not> is_INVALID (snd r1)" and v2: "\<not> is_INVALID (snd r2)"
    unfolding parse by (auto simp add: mergeObjectSync_def split: if_splits prod.splits)
  then obtain y1 y2 where y: "snd r1 = OK y1" "snd r2 = OK y2"
    using not_INVALID_OK by blast
  from y(1) obtain wd where wd: "get_prop kvs ''workflow_data'' = JObj wd"
    unfolding r1_def using zparse_ZObject_OK_is_object by blast
  from y(2) have y2: "y2 = get_prop kvs ''workflow_name''"
      "get_prop kvs ''workflow_name'' = JUndefined \<or> (\<exists>s. get_prop kvs ''workflow_name'' = JStr s)"
    unfolding r2_def using zparse_optional_string_OK by blast+
  from y(1) have "\<exists>obj. y1 = JObj obj"
    unfolding r1_def wd by (auto simp add: mergeObjectSync_def split: if_splits)
  then have y1_defined: "y1 \<noteq> JUndefined" by auto
  from ok y y1_defined have d1: "js_get d ''workflow_data'' = y1" and d2: "js_get d ''workflow_name'' = y2"
    unfolding parse
    by (auto simp add: mergeObjectSync_def get_prop_Cons get_prop_Nil split: if_splits prod.splits)
  have "js_get y1 k = get_prop wd k" if "k \<noteq> ''__proto__''" for k
    using zparse_passthrough_get_prop [where shape = inner and p = "[Key ''workflow_data'']"
        and kvs = wd and d = y1 and k = k] free that y(1)
    unfolding r1_def wd by blast
  with input wd d1 d2 y2 show ?thesis by auto
qed

lemma JobSearchTool_schema_object:
  "safeParse JobSearchTool_schema (JObj kvs) =
     (if getParsedType (get_prop kvs ''query'') = ''string''
      then Inr (JObj [(''query'', get_prop kvs ''query'')])
      else Inl [invalid_type [Key ''query''] ''string'' (get_prop kvs ''query'')])"
  by (auto simp add: safeParse_def JobSearchTool_schema_def mergeObjectSync_def extra_pairs_def
      expect_type_def)

lemma JobSearchTool_schema_not_object:
  "getParsedType input \<noteq> ''object'' \<Longrightarrow>
   safeParse JobSearchTool_schema input = Inl [invalid_type [] ''object'' input]"
  by (cases input) (simp_all add: safeParse_def JobSearchTool_schema_def)

subsection \<open>Evaluation of the examples\<close>

lemmas schema_eval =
  safeParse_def N8NTool_schema_def JobSearchTool_schema_def mergeObjectSync_def mergeArray_def
  extra_pairs_def expect_type_def invalid_type_def get_prop_def has_prop_def enumerate_eq_zip

lemmas json_eval =
  JSON_stringify_def wrap_block_def newline_def QuoteJSONString_def escape_char_def hex2_def
  show_int_def show_nat.simps digit_char_def

lemmas constructor_eval =
  N8NTool_constructor_def JobSearchTool_constructor_def Let_def coalesce_def get_prop_def
  getEnvironmentVariable_def

section \<open>Properties of the adapters\<close>

text \<open>
  C1. For both adapters: when the input passes validation and the HTTP client rejects the
  request, the call does not raise. It has handed the one request to the client and
  returns a string, the pretty-printed JSON of the failure envelope of the error's branch
  of the taxonomy, each with \<^verbatim>\<open>success: false\<close>: for the code \<^verbatim>\<open>ECONNABORTED\<close> the timeout
  envelope with the configured timeout; for \<^verbatim>\<open>ENOTFOUND\<close> or \<^verbatim>\<open>ECONNREFUSED\<close> the
  unreachable envelope with the endpoint URL; for any other error that carries a response
  (a non-2xx status) the upstream envelope with the error's message and the response's
  status, status text and body; for everything else the unknown envelope with the error's
  message and the name of its constructor. A call raises exactly when its input fails
  validation.
\<close>

theorem transport_failures_are_returned:
  "(safeParse (schema this) input = Inr d \<and> post (N8NTool_request this sentAt d) = Rejected e
      \<and> err_code e = JStr ''ECONNABORTED'' \<longrightarrow>
      N8NTool_call this post sentAt executedAt input =
        ([N8NTool_request this sentAt d],
         Inr (JSON_stringify (JObj
           [(''success'', JBool False),
            (''error'', JStr ''Workflow execution timeout''),
            (''message'', JStr (''The N8N workflow did not complete within '' @ ToString (timeout this) @
               ''ms. The workflow may still be running on N8N.'')),
            (''timeout'', timeout this)]))))
   \<and> (safeParse (schema this) input = Inr d \<and> post (N8NTool_request this sentAt d) = Rejected e
      \<and> (err_code e = JStr ''ENOTFOUND'' \<or> err_code e = JStr ''ECONNREFUSED'') \<longrightarrow>
      N8NTool_call this post sentAt executedAt input =
        ([N8NTool_request this sentAt d],
         Inr (JSON_stringify (JObj
           [(''success'', JBool False),
            (''error'', JStr ''Cannot reach N8N server''),
            (''message'', JStr ''Unable to connect to the N8N webhook URL. Please check your N8N instance is running and the URL is correct.''),
            (''webhookUrl'', webhookUrl this)]))))
   \<and> (safeParse (schema this) input = Inr d \<and> post (N8NTool_request this sentAt d) = Rejected e
      \<and> err_code e \<noteq> JStr ''ECONNABORTED'' \<and> err_code e \<noteq> JStr ''ENOTFOUND'' \<and> err_code e \<noteq> JStr ''ECONNREFUSED''
      \<and> err_response e = Some r \<longrightarrow>
      N8NTool_call this post sentAt executedAt input =
        ([N8NTool_request this sentAt d],
         Inr (JSON_stringify (JObj
           [(''success'', JBool False),
            (''error'', JStr ''N8N workflow execution failed''),
            (''message'', err_message e),
            (''status'', JNum (resp_status r)),
            (''statusText'', JStr (resp_statusText r)),
            (''details'', resp_data r)]))))
   \<and> (safeParse (schema this) input = Inr d \<and> post (N8NTool_request this sentAt d) = Rejected e
      \<and> err_code e \<noteq> JStr ''ECONNABORTED'' \<and> err_code e \<noteq> JStr ''ENOTFOUND'' \<and> err_code e \<noteq> JStr ''ECONNREFUSED''
      \<and> err_response e = None \<longrightarrow>
      N8NTool_call this post sentAt executedAt input =
        ([N8NTool_request this sentAt d],
         Inr (JSON_stringify (JObj
           [(''success'', JBool False),
            (''error'', JStr ''Unknown error occurred''),
            (''message'', err_message e),
            (''type'', JStr (err_constructor_name e))]))))
   \<and> (safeParse (schema this) input = Inr d \<and> post (JobSearchTool_request this d) = Rejected e
      \<and> err_code e = JStr ''ECONNABORTED'' \<longrightarrow>
      JobSearchTool_call this post input =
        ([JobSearchTool_request this d],
         Inr (JSON_stringify (JObj
           [(''success'', JBool False),
            (''error'', JStr ''Job search timeout''),
            (''message'', JStr (''The job search did not complete within '' @ ToString (timeout this) @
               ''ms. Please try again with more specific criteria.'')),
            (''timeout'', timeout this)]))))
   \<and> (safeParse (schema this) input = Inr d \<and> post (JobSearchTool_request this d) = Rejected e
      \<and> (err_code e = JStr ''ENOTFOUND'' \<or> err_code e = JStr ''ECONNREFUSED'') \<longrightarrow>
      JobSearchTool_call this post input =
        ([JobSearchTool_request this d],
         Inr (JSON_stringify (JObj
           [(''success'', JBool False),
            (''error'', JStr ''Cannot reach job search service''),
            (''message'', JStr ''Unable to connect to the job search service. Please try again later.''),
            (''webhookUrl'', webhookUrl this)]))))
   \<and> (safeParse (schema this) input = Inr d \<and> post (JobSearchTool_request this d) = Rejected e
      \<and> err_code e \<noteq> JStr ''ECONNABORTED'' \<and> err_code e \<noteq> JStr ''ENOTFOUND'' \<and> err_code e \<noteq> JStr ''ECONNREFUSED''
      \<and> err_response e = Some r \<longrightarrow>
      JobSearchTool_call this post input =
        ([JobSearchTool_request this d],
         Inr (JSON_stringify (JObj
           [(''success'', JBool False),
            (''error'', JStr ''Job search failed''),
            (''message'', err_message e),
            (''status'', JNum (resp_status r)),
            (''statusText'', JStr (resp_statusText r)),
            (''details'', resp_data r)]))))
   \<and> (safeParse (schema this) input = Inr d \<and> post (JobSearchTool_request this d) = Rejected e
      \<and> err_code e \<noteq> JStr ''ECONNABORTED'' \<and> err_code e \<noteq> JStr ''ENOTFOUND'' \<and> err_code e \<noteq> JStr ''ECONNREFUSED''
      \<and> err_response e = None \<longrightarrow>
      JobSearchTool_call this post input =
        ([JobSearchTool_request this d],
         Inr (JSON_stringify (JObj
           [(''success'', JBool False),
            (''error'', JStr ''Unknown error occurred''),
            (''message'', err_message e),
            (''type'', JStr (err_constructor_name e))]))))
   \<and> (safeParse (schema this) input = Inr d \<and> post (N8NTool_request this sentAt d) = Rejected e \<longrightarrow>
      (\<exists>s. snd (N8NTool_call this post sentAt executedAt input) = Inr (JStr s)))
   \<and> (safeParse (schema this) input = Inr d \<and> post (JobSearchTool_request this d) = Rejected e \<longrightarrow>
      (\<exists>s. snd (JobSearchTool_call this post input) = Inr (JStr s)))
   \<and> isl (snd (N8NTool_call this post sentAt executedAt input)) = isl (safeParse (schema this) input)
   \<and> isl (snd (JobSearchTool_call this post input)) = isl (safeParse (schema this) input)"
proof (intro conjI impI)
  assume "safeParse (schema this) input = Inr d \<and> post (N8NTool_request this sentAt d) = Rejected e"
  then show "\<exists>s. snd (N8NTool_call this post sentAt executedAt input) = Inr (JStr s)"
    using N8NTool_catch_string [of this e] by (auto simp add: N8NTool_call_valid)
next
  assume "safeParse (schema this) input = Inr d \<and> post (JobSearchTool_request this d) = Rejected e"
  then show "\<exists>s. snd (JobSearchTool_call this post input) = Inr (JStr s)"
    using JobSearchTool_catch_string [of this e] by (auto simp add: JobSearchTool_call_valid)
next
  show "isl (snd (N8NTool_call this post sentAt executedAt input)) = isl (safeParse (schema this) input)"
    by (rule N8NTool_call_raises)
next
  show "isl (snd (JobSearchTool_call this post input)) = isl (safeParse (schema this) input)"
    by (rule JobSearchTool_call_raises)
qed (auto simp add: N8NTool_call_valid JobSearchTool_call_valid N8NTool_catch_def JobSearchTool_catch_def)

theorem transport_failures_are_returned_witness:
  "safeParse (schema n8n_example) (JObj [(''workflow_data'', JObj [(''position'', JStr ''dev'')])]) = Inr (JObj [(''workflow_data'', JObj [(''position'', JStr ''dev'')])])
   \<and> safeParse (schema job_search_example) (JObj [(''query'', JStr ''dev jobs'')]) = Inr (JObj [(''query'', JStr ''dev jobs'')])
   \<and> snd (N8NTool_call n8n_example (rejecting_endpoint timeout_error) ''2025-03-01T09:00:00.000Z'' ''2025-03-01T09:00:00.250Z''
        (JObj [(''workflow_data'', JObj [(''position'', JStr ''dev'')])])) =
       Inr (JSON_stringify (JObj
           [(''success'', JBool False),
            (''error'', JStr ''Workflow execution timeout''),
            (''message'', JStr ''The N8N workflow did not complete within 50ms. The workflow may still be running on N8N.''),
            (''timeout'', JNum 50)]))
   \<and> snd (N8NTool_call n8n_example (rejecting_endpoint refused_error) ''2025-03-01T09:00:00.000Z'' ''2025-03-01T09:00:00.250Z''
        (JObj [(''workflow_data'', JObj [(''position'', JStr ''dev'')])])) =
       Inr (JSON_stringify (JObj
           [(''success'', JBool False),
            (''error'', JStr ''Cannot reach N8N server''),
            (''message'', JStr ''Unable to connect to the N8N webhook URL. Please check your N8N instance is running and the URL is correct.''),
            (''webhookUrl'', JStr ''http://n8n.test/webhook/jobs'')]))
   \<and> snd (N8NTool_call n8n_example (rejecting_endpoint upstream_error) ''2025-03-01T09:00:00.000Z'' ''2025-03-01T09:00:00.250Z''
        (JObj [(''workflow_data'', JObj [(''position'', JStr ''dev'')])])) =
       Inr (JSON_stringify (JObj
           [(''success'', JBool False),
            (''error'', JStr ''N8N workflow execution failed''),
            (''message'', JStr ''Request failed with status code 500''),
            (''status'', JNum 500),
            (''statusText'', JStr ''Internal Server Error''),
            (''details'', JObj [(''message'', JStr ''Workflow could not be started'')])]))
   \<and> snd (N8NTool_call n8n_example (rejecting_endpoint unknown_error) ''2025-03-01T09:00:00.000Z'' ''2025-03-01T09:00:00.250Z''
        (JObj [(''workflow_data'', JObj [(''position'', JStr ''dev'')])])) =
       Inr (JSON_stringify (JObj
           [(''success'', JBool False),
            (''error'', JStr ''Unknown error occurred''),
            (''message'', JStr ''Invalid URL''),
            (''type'', JStr ''TypeError'')]))
   \<and> snd (JobSearchTool_call job_search_example (rejecting_endpoint timeout_error) (JObj [(''query'', JStr ''dev jobs'')])) =
       Inr (JSON_stringify (JObj
           [(''success'', JBool False),
            (''error'', JStr ''Job search timeout''),
            (''message'', JStr ''The job search did not complete within 50ms. Please try again with more specific criteria.''),
            (''timeout'', JNum 50)]))
   \<and> snd (JobSearchTool_call job_search_example (rejecting_endpoint refused_error) (JObj [(''query'', JStr ''dev jobs'')])) =
       Inr (JSON_stringify (JObj
           [(''success'', JBool False),
            (''error'', JStr ''Cannot reach job search service''),
            (''message'', JStr ''Unable to connect to the job search service. Please try again later.''),
            (''webhookUrl'', JStr ''http://n8n.test/webhook/search'')]))
   \<and> snd (JobSearchTool_call job_search_example (rejecting_endpoint upstream_error) (JObj [(''query'', JStr ''dev jobs'')])) =
       Inr (JSON_stringify (JObj
           [(''success'', JBool False),
            (''error'', JStr ''Job search failed''),
            (''message'', JStr ''Request failed with status code 500''),
            (''status'', JNum 500),
            (''statusText'', JStr ''Internal Server Error''),
            (''details'', JObj [(''message'', JStr ''Workflow could not be started'')])]))
   \<and> snd (JobSearchTool_call job_search_example (rejecting_endpoint unknown_error) (JObj [(''query'', JStr ''dev jobs'')])) =
       Inr (JSON_stringify (JObj
           [(''success'', JBool False),
            (''error'', JStr ''Unknown error occurred''),
            (''message'', JStr ''Invalid URL''),
            (''type'', JStr ''TypeError'')]))"
proof -
  have v1: "safeParse (schema n8n_example) (JObj [(''workflow_data'', JObj [(''position'', JStr ''dev'')])]) = Inr (JObj [(''workflow_data'', JObj [(''position'', JStr ''dev'')])])"
    by (simp add: n8n_example_def schema_eval)
  have v2: "safeParse (schema job_search_example) (JObj [(''query'', JStr ''dev jobs'')]) = Inr (JObj [(''query'', JStr ''dev jobs'')])"
    by (simp add: job_search_example_def schema_eval)
  have f: "timeout n8n_example = JNum 50" "timeout job_search_example = JNum 50"
    "webhookUrl n8n_example = JStr ''http://n8n.test/webhook/jobs''"
    "webhookUrl job_search_example = JStr ''http://n8n.test/webhook/search''"
    "ToString (JNum 50) = ''50''"
    by (simp_all add: n8n_example_def job_search_example_def json_eval)
  show ?thesis
    using v1 v2 f
      transport_failures_are_returned [where this = n8n_example and input = "JObj [(''workflow_data'', JObj [(''position'', JStr ''dev'')])]"
        and d = "JObj [(''workflow_data'', JObj [(''position'', JStr ''dev'')])]" and post = "rejecting_endpoint timeout_error" and e = timeout_error
        and sentAt = "''2025-03-01T09:00:00.000Z''" and executedAt = "''2025-03-01T09:00:00.250Z''"
        and r = "\<lparr> resp_status = 500, resp_statusText = ''Internal Server Error'',
             resp_data = JObj [(''message'', JStr ''Workflow could not be started'')] \<rparr>"]
      transport_failures_are_returned [where this = n8n_example and input = "JObj [(''workflow_data'', JObj [(''position'', JStr ''dev'')])]"
        and d = "JObj [(''workflow_data'', JObj [(''position'', JStr ''dev'')])]" and post = "rejecting_endpoint refused_error" and e = refused_error
        and sentAt = "''2025-03-01T09:00:00.000Z''" and executedAt = "''2025-03-01T09:00:00.250Z''"
        and r = "\<lparr> resp_status = 500, resp_statusText = ''Internal Server Error'',
             resp_data = JObj [(''message'', JStr ''Workflow could not be started'')] \<rparr>"]
      transport_failures_are_returned [where this = n8n_example and input = "JObj [(''workflow_data'', JObj [(''position'', JStr ''dev'')])]"
        and d = "JObj [(''workflow_data'', JObj [(''position'', JStr ''dev'')])]" and post = "rejecting_endpoint upstream_error" and e = upstream_error
        and sentAt = "''2025-03-01T09:00:00.000Z''" and executedAt = "''2025-03-01T09:00:00.250Z''"
        and r = "\<lparr> resp_status = 500, resp_statusText = ''Internal Server Error'',
             resp_data = JObj [(''message'', JStr ''Workflow could not be started'')] \<rparr>"]
      transport_failures_are_returned [where this = n8n_example and input = "JObj [(''workflow_data'', JObj [(''position'', JStr ''dev'')])]"
        and d = "JObj [(''workflow_data'', JObj [(''position'', JStr ''dev'')])]" and post = "rejecting_endpoint unknown_error" and e = unknown_error
        and sentAt = "''2025-03-01T09:00:00.000Z''" and executedAt = "''2025-03-01T09:00:00.250Z''"
        and r = "\<lparr> resp_status = 500, resp_statusText = ''Internal Server Error'',
             resp_data = JObj [(''message'', JStr ''Workflow could not be started'')] \<rparr>"]
      transport_failures_are_returned [where this = job_search_example and input = "JObj [(''query'', JStr ''dev jobs'')]"
        and d = "JObj [(''query'', JStr ''dev jobs'')]" and post = "rejecting_endpoint timeout_error" and e = timeout_error
        and sentAt = "''2025-03-01T09:00:00.000Z''" and executedAt = "''2025-03-01T09:00:00.250Z''"
        and r = "\<lparr> resp_status = 500, resp_statusText = ''Internal Server Error'',
             resp_data = JObj [(''message'', JStr ''Workflow could not be started'')] \<rparr>"]
      transport_failures_are_returned [where this = job_search_example and input = "JObj [(''query'', JStr ''dev jobs'')]"
        and d = "JObj [(''query'', JStr ''dev jobs'')]" and post = "rejecting_endpoint refused_error" and e = refused_error
        and sentAt = "''2025-03-01T09:00:00.000Z''" and executedAt = "''2025-03-01T09:00:00.250Z''"
        and r = "\<lparr> resp_status = 500, resp_statusText = ''Internal Server Error'',
             resp_data = JObj [(''message'', JStr ''Workflow could not be started'')] \<rparr>"]
      transport_failures_are_returned [where this = job_search_example and input = "JObj [(''query'', JStr ''dev jobs'')]"
        and d = "JObj [(''query'', JStr ''dev jobs'')]" and post = "rejecting_endpoint upstream_error" and e = upstream_error
        and sentAt = "''2025-03-01T09:00:00.000Z''" and executedAt = "''2025-03-01T09:00:00.250Z''"
        and r = "\<lparr> resp_status = 500, resp_statusText = ''Internal Server Error'',
             resp_data = JObj [(''message'', JStr ''Workflow could not be started'')] \<rparr>"]
      transport_failures_are_returned [where this = job_search_example and input = "JObj [(''query'', JStr ''dev jobs'')]"
        and d = "JObj [(''query'', JStr ''dev jobs'')]" and post = "rejecting_endpoint unknown_error" and e = unknown_error
        and sentAt = "''2025-03-01T09:00:00.000Z''" and executedAt = "''2025-03-01T09:00:00.250Z''"
        and r = "\<lparr> resp_status = 500, resp_statusText = ''Internal Server Error'',
             resp_data = JObj [(''message'', JStr ''Workflow could not be started'')] \<rparr>"]
    by (simp add: rejecting_endpoint_def timeout_error_def refused_error_def upstream_error_def
        unknown_error_def)
qed

text \<open>
  C2. Free-text adapter: when the input passes validation and the POST resolves, the call
  returns \<^verbatim>\<open>JSON.stringify(response.data, null, 2)\<close>, the upstream body alone and
  pretty-printed: no \<^verbatim>\<open>success\<close>, \<^verbatim>\<open>workflow\<close>, \<^verbatim>\<open>executedAt\<close> or \<^verbatim>\<open>status\<close> is put
  around it.
\<close>

theorem free_text_success_is_verbatim:
  "safeParse (schema this) input = Inr d \<and> post (JobSearchTool_request this d) = Resolved response \<longrightarrow>
     JobSearchTool_call this post input =
       ([JobSearchTool_request this d], Inr (JSON_stringify (resp_data response)))"
  by (simp add: JobSearchTool_call_valid)

theorem free_text_success_is_verbatim_witness:
  "safeParse (schema job_search_example) (JObj [(''query'', JStr ''x'')]) = Inr (JObj [(''query'', JStr ''x'')])
   \<and> jobs_endpoint (JobSearchTool_request job_search_example (JObj [(''query'', JStr ''x'')])) = Resolved jobs_response
   \<and> snd (JobSearchTool_call job_search_example jobs_endpoint (JObj [(''query'', JStr ''x'')])) =
       Inr (JStr (''{'' @ newline @
                  ''  '' @ [CHR 0x22] @ ''jobs'' @ [CHR 0x22] @ '': ['' @ newline @
                  ''    1,'' @ newline @
                  ''    2,'' @ newline @
                  ''    3'' @ newline @
                  ''  ]'' @ newline @
                  ''}''))"
proof -
  have v: "safeParse (schema job_search_example) (JObj [(''query'', JStr ''x'')]) = Inr (JObj [(''query'', JStr ''x'')])"
    by (simp add: job_search_example_def schema_eval)
  have p: "jobs_endpoint (JobSearchTool_request job_search_example (JObj [(''query'', JStr ''x'')])) = Resolved jobs_response"
    by (simp add: jobs_endpoint_def)
  have j: "JSON_stringify (resp_data jobs_response) =
       JStr (''{'' @ newline @
                  ''  '' @ [CHR 0x22] @ ''jobs'' @ [CHR 0x22] @ '': ['' @ newline @
                  ''    1,'' @ newline @
                  ''    2,'' @ newline @
                  ''    3'' @ newline @
                  ''  ]'' @ newline @
                  ''}'')"
    by (simp add: jobs_response_def json_eval)
  show ?thesis
    using v p j free_text_success_is_verbatim [of job_search_example "JObj [(''query'', JStr ''x'')]"
      "JObj [(''query'', JStr ''x'')]" jobs_endpoint jobs_response]
    by simp
qed

text \<open>
  C3, amended. Structured adapter: when the input passes validation and the POST resolves,
  the call returns the pretty-printed JSON of exactly
  \<^verbatim>\<open>{success: true, workflow, result, executedAt, status}\<close>, where \<^verbatim>\<open>workflow\<close> is the given
  workflow name when that is a non-empty string and \<^verbatim>\<open>default\<close> when no name was given or
  the given name is the empty string, \<^verbatim>\<open>result\<close> is the upstream body, \<^verbatim>\<open>executedAt\<close> the time
  string read on completion and \<^verbatim>\<open>status\<close> the HTTP status. Against an endpoint whose
  response body is \<^verbatim>\<open>{data: d}\<close> for the \<^verbatim>\<open>data\<close> field \<^verbatim>\<open>d\<close> of the request, the envelope's
  \<^verbatim>\<open>result.data\<close> reads like the criteria passed in under every property name other than
  \<^verbatim>\<open>__proto__\<close>.
\<close>

theorem structured_success_envelope:
  "N8NTool_constructor fields' env = Inr this \<and> safeParse N8NTool_schema input = Inr d
     \<and> post (N8NTool_request this sentAt d) = Resolved response \<longrightarrow>
   N8NTool_call this post sentAt executedAt input =
     ([N8NTool_request this sentAt d],
      Inr (JSON_stringify (JObj
        [(''success'', JBool True),
         (''workflow'',
            if js_get input ''workflow_name'' = JUndefined \<or> js_get input ''workflow_name'' = JStr []
            then JStr ''default'' else js_get input ''workflow_name''),
         (''result'', resp_data response),
         (''executedAt'', JStr executedAt),
         (''status'', JNum (resp_status response))])))
   \<and> (resp_data response = JObj [(''data'', js_get (req_body (N8NTool_request this sentAt d)) ''data'')] \<longrightarrow>
        (\<forall>k. k \<noteq> ''__proto__'' \<longrightarrow>
           js_get (js_get (resp_data response) ''data'') k = js_get (js_get input ''workflow_data'') k))"
proof
  assume h: "N8NTool_constructor fields' env = Inr this \<and> safeParse N8NTool_schema input = Inr d
     \<and> post (N8NTool_request this sentAt d) = Resolved response"
  then have valid: "safeParse (schema this) input = Inr d"
    by (auto dest: N8NTool_constructor_schema)
  from h obtain kvs wd where shape: "input = JObj kvs" "get_prop kvs ''workflow_data'' = JObj wd"
      "\<forall>k. k \<noteq> ''__proto__'' \<longrightarrow> js_get (js_get d ''workflow_data'') k = get_prop wd k"
      "js_get d ''workflow_name'' = get_prop kvs ''workflow_name''"
      "get_prop kvs ''workflow_name'' = JUndefined \<or> (\<exists>s. get_prop kvs ''workflow_name'' = JStr s)"
    using N8NTool_schema_valid [of input d] by blast
  have workflow: "js_or (js_get d ''workflow_name'') (JStr ''default'') =
      (if js_get input ''workflow_name'' = JUndefined \<or> js_get input ''workflow_name'' = JStr []
       then JStr ''default'' else js_get input ''workflow_name'')"
    using shape(1,4,5) by (auto simp add: js_or_def)
  have call: "N8NTool_call this post sentAt executedAt input =
     ([N8NTool_request this sentAt d],
      Inr (JSON_stringify (JObj
        [(''success'', JBool True),
         (''workflow'',
            if js_get input ''workflow_name'' = JUndefined \<or> js_get input ''workflow_name'' = JStr []
            then JStr ''default'' else js_get input ''workflow_name''),
         (''result'', resp_data response),
         (''executedAt'', JStr executedAt),
         (''status'', JNum (resp_status response))])))"
    using h workflow by (simp add: N8NTool_call_valid [OF valid])
  have data: "js_get (req_body (N8NTool_request this sentAt d)) ''data'' = js_get d ''workflow_data''"
    by (simp add: N8NTool_request_def Let_def get_prop_def)
  have echo: "\<forall>k. k \<noteq> ''__proto__'' \<longrightarrow>
           js_get (js_get (resp_data response) ''data'') k = js_get (js_get input ''workflow_data'') k"
    if "resp_data response = JObj [(''data'', js_get (req_body (N8NTool_request this sentAt d)) ''data'')]"
    using that data shape(1,2,3) by (simp add: get_prop_def)
  from call echo show "N8NTool_call this post sentAt executedAt input =
     ([N8NTool_request this sentAt d],
      Inr (JSON_stringify (JObj
        [(''success'', JBool True),
         (''workflow'',
            if js_get input ''workflow_name'' = JUndefined \<or> js_get input ''workflow_name'' = JStr []
            then JStr ''default'' else js_get input ''workflow_name''),
         (''result'', resp_data response),
         (''executedAt'', JStr executedAt),
         (''status'', JNum (resp_status response))])))
   \<and> (resp_data response = JObj [(''data'', js_get (req_body (N8NTool_request this sentAt d)) ''data'')] \<longrightarrow>
        (\<forall>k. k \<noteq> ''__proto__'' \<longrightarrow>
           js_get (js_get (resp_data response) ''data'') k = js_get (js_get input ''workflow_data'') k))"
    by blast
qed

theorem structured_success_envelope_witness:
  "N8NTool_constructor
     [(''N8N_WEBHOOK_URL'', JStr ''http://n8n.test/webhook/jobs''), (''N8N_API_KEY'', JStr ''s3cret''),
      (''N8N_TIMEOUT'', JNum 50)] [] = Inr n8n_example
   \<and> safeParse N8NTool_schema
        (JObj [(''workflow_data'', JObj [(''seniority'', JStr ''mid''), (''position'', JStr ''dev'')]),
               (''workflow_name'', JStr ''jobs'')])
       = Inr (JObj [(''workflow_data'', JObj [(''position'', JStr ''dev''), (''seniority'', JStr ''mid'')]),
               (''workflow_name'', JStr ''jobs'')])
   \<and> echo_endpoint (N8NTool_request n8n_example ''2025-03-01T09:00:00.000Z''
        (JObj [(''workflow_data'', JObj [(''position'', JStr ''dev''), (''seniority'', JStr ''mid'')]),
               (''workflow_name'', JStr ''jobs'')]))
       = Resolved \<lparr> resp_status = 200, resp_statusText = ''OK'',
            resp_data = JObj [(''data'', JObj [(''position'', JStr ''dev''), (''seniority'', JStr ''mid'')])] \<rparr>
   \<and> snd (N8NTool_call n8n_example echo_endpoint ''2025-03-01T09:00:00.000Z'' ''2025-03-01T09:00:00.250Z''
        (JObj [(''workflow_data'', JObj [(''seniority'', JStr ''mid''), (''position'', JStr ''dev'')]),
               (''workflow_name'', JStr ''jobs'')]))
       = Inr (JSON_stringify (JObj
           [(''success'', JBool True),
            (''workflow'', JStr ''jobs''),
            (''result'', JObj [(''data'', JObj [(''position'', JStr ''dev''), (''seniority'', JStr ''mid'')])]),
            (''executedAt'', JStr ''2025-03-01T09:00:00.250Z''),
            (''status'', JNum 200)]))
   \<and> js_get (JObj [(''position'', JStr ''dev''), (''seniority'', JStr ''mid'')]) ''seniority'' =
       js_get (JObj [(''seniority'', JStr ''mid''), (''position'', JStr ''dev'')]) ''seniority''
   \<and> js_get (JObj [(''position'', JStr ''dev''), (''seniority'', JStr ''mid'')]) ''remote'' =
       js_get (JObj [(''seniority'', JStr ''mid''), (''position'', JStr ''dev'')]) ''remote''"
proof -
  have c: "N8NTool_constructor
     [(''N8N_WEBHOOK_URL'', JStr ''http://n8n.test/webhook/jobs''), (''N8N_API_KEY'', JStr ''s3cret''),
      (''N8N_TIMEOUT'', JNum 50)] [] = Inr n8n_example"
    by (simp add: constructor_eval n8n_example_def)
  have v: "safeParse N8NTool_schema
        (JObj [(''workflow_data'', JObj [(''seniority'', JStr ''mid''), (''position'', JStr ''dev'')]),
               (''workflow_name'', JStr ''jobs'')])
       = Inr (JObj [(''workflow_data'', JObj [(''position'', JStr ''dev''), (''seniority'', JStr ''mid'')]),
               (''workflow_name'', JStr ''jobs'')])"
    by (simp add: schema_eval)
  have p: "echo_endpoint (N8NTool_request n8n_example ''2025-03-01T09:00:00.000Z''
        (JObj [(''workflow_data'', JObj [(''position'', JStr ''dev''), (''seniority'', JStr ''mid'')]),
               (''workflow_name'', JStr ''jobs'')]))
       = Resolved \<lparr> resp_status = 200, resp_statusText = ''OK'',
            resp_data = JObj [(''data'', JObj [(''position'', JStr ''dev''), (''seniority'', JStr ''mid'')])] \<rparr>"
    by (simp add: echo_endpoint_def N8NTool_request_def get_prop_def)
  have b: "js_get (req_body (N8NTool_request n8n_example ''2025-03-01T09:00:00.000Z''
        (JObj [(''workflow_data'', JObj [(''position'', JStr ''dev''), (''seniority'', JStr ''mid'')]),
               (''workflow_name'', JStr ''jobs'')]))) ''data''
       = JObj [(''position'', JStr ''dev''), (''seniority'', JStr ''mid'')]"
    by (simp add: N8NTool_request_def get_prop_def)
  have g: "js_get (JObj [(''workflow_data'', JObj [(''seniority'', JStr ''mid''), (''position'', JStr ''dev'')]),
               (''workflow_name'', JStr ''jobs'')]) ''workflow_name'' = JStr ''jobs''"
    "js_get (JObj [(''workflow_data'', JObj [(''seniority'', JStr ''mid''), (''position'', JStr ''dev'')]),
               (''workflow_name'', JStr ''jobs'')]) ''workflow_data''
       = JObj [(''seniority'', JStr ''mid''), (''position'', JStr ''dev'')]"
    by (simp_all add: get_prop_def)
  show ?thesis
    using c v p b g
      structured_success_envelope [where fields' = "[(''N8N_WEBHOOK_URL'', JStr ''http://n8n.test/webhook/jobs''),
            (''N8N_API_KEY'', JStr ''s3cret''), (''N8N_TIMEOUT'', JNum 50)]"
          and env = "[]" and this = n8n_example and post = echo_endpoint
          and sentAt = "''2025-03-01T09:00:00.000Z''" and executedAt = "''2025-03-01T09:00:00.250Z''"
          and input = "JObj [(''workflow_data'', JObj [(''seniority'', JStr ''mid''), (''position'', JStr ''dev'')]),
               (''workflow_name'', JStr ''jobs'')]"
          and d = "JObj [(''workflow_data'', JObj [(''position'', JStr ''dev''), (''seniority'', JStr ''mid'')]),
               (''workflow_name'', JStr ''jobs'')]"
          and response = "\<lparr> resp_status = 200, resp_statusText = ''OK'',
            resp_data = JObj [(''data'', JObj [(''position'', JStr ''dev''), (''seniority'', JStr ''mid'')])] \<rparr>"]
    by (auto simp add: get_prop_def)
qed

text \<open>
  As the specification words the envelope (the given name, or \<^verbatim>\<open>default\<close> when none was
  given), it is not what the adapter returns for the workflow name \<^verbatim>\<open>""\<close>: the source
  computes \<^verbatim>\<open>workflow_name || 'default'\<close>, and the empty string is falsy.
\<close>

theorem structured_success_envelope_counterexample:
  "N8NTool_constructor
     [(''N8N_WEBHOOK_URL'', JStr ''http://n8n.test/webhook/jobs''), (''N8N_API_KEY'', JStr ''s3cret''),
      (''N8N_TIMEOUT'', JNum 50)] [] = Inr n8n_example
   \<and> snd (N8NTool_call n8n_example echo_endpoint ''2025-03-01T09:00:00.000Z'' ''2025-03-01T09:00:00.250Z''
        (JObj [(''workflow_data'', JObj []), (''workflow_name'', JStr '''')]))
       = Inr (JSON_stringify (JObj
           [(''success'', JBool True),
            (''workflow'', JStr ''default''),
            (''result'', JObj [(''data'', JObj [])]),
            (''executedAt'', JStr ''2025-03-01T09:00:00.250Z''),
            (''status'', JNum 200)]))
   \<and> snd (N8NTool_call n8n_example echo_endpoint ''2025-03-01T09:00:00.000Z'' ''2025-03-01T09:00:00.250Z''
        (JObj [(''workflow_data'', JObj []), (''workflow_name'', JStr '''')]))
       \<noteq> Inr (JSON_stringify (specified_success_envelope (JStr '''')
             \<lparr> resp_status = 200, resp_statusText = ''OK'', resp_data = JObj [(''data'', JObj [])] \<rparr> ''2025-03-01T09:00:00.250Z''))"
proof -
  have c: "N8NTool_constructor
     [(''N8N_WEBHOOK_URL'', JStr ''http://n8n.test/webhook/jobs''), (''N8N_API_KEY'', JStr ''s3cret''),
      (''N8N_TIMEOUT'', JNum 50)] [] = Inr n8n_example"
    by (simp add: constructor_eval n8n_example_def)
  have v: "safeParse (schema n8n_example) (JObj [(''workflow_data'', JObj []), (''workflow_name'', JStr '''')])
      = Inr (JObj [(''workflow_data'', JObj []), (''workflow_name'', JStr '''')])"
    by (simp add: n8n_example_def schema_eval)
  have r: "snd (N8NTool_call n8n_example echo_endpoint ''2025-03-01T09:00:00.000Z'' ''2025-03-01T09:00:00.250Z''
        (JObj [(''workflow_data'', JObj []), (''workflow_name'', JStr '''')]))
       = Inr (JSON_stringify (JObj
           [(''success'', JBool True),
            (''workflow'', JStr ''default''),
            (''result'', JObj [(''data'', JObj [])]),
            (''executedAt'', JStr ''2025-03-01T09:00:00.250Z''),
            (''status'', JNum 200)]))"
    by (simp add: N8NTool_call_valid [OF v] echo_endpoint_def N8NTool_request_def get_prop_def js_or_def)
  have ne: "JSON_stringify (JObj
           [(''success'', JBool True),
            (''workflow'', JStr ''default''),
            (''result'', JObj [(''data'', JObj [])]),
            (''executedAt'', JStr ''2025-03-01T09:00:00.250Z''),
            (''status'', JNum 200)])
       \<noteq> JSON_stringify (specified_success_envelope (JStr '''')
             \<lparr> resp_status = 200, resp_statusText = ''OK'', resp_data = JObj [(''data'', JObj [])] \<rparr> ''2025-03-01T09:00:00.250Z'')"
    by (simp add: specified_success_envelope_def json_eval)
  from c r ne show ?thesis by simp
qed

text \<open>
  C4, amended. For both adapters and every configuration, construction throws its
  configuration error exactly when the override flag is not set and the resolved endpoint
  URL is falsy, the resolved URL being the first source, in the adapter's order (the
  constructor field before the environment variable of the same name, the job-search name
  before the generic one), that is neither \<^verbatim>\<open>undefined\<close> nor \<^verbatim>\<open>null\<close>. So construction
  throws when every source is absent, \<^verbatim>\<open>null\<close> or empty, and does not throw, and holds the
  URL, when the first defined source is a non-empty URL; an empty string in a source ahead
  of a usable URL makes construction throw.
\<close>

theorem construction_requires_endpoint:
  "isl (N8NTool_constructor fields' env) =
     (\<not> truthy (get_prop fields' ''override'') \<and>
      \<not> truthy (first_defined [get_prop fields' ''N8N_WEBHOOK_URL'', getEnvironmentVariable env ''N8N_WEBHOOK_URL'']))
   \<and> isl (JobSearchTool_constructor fields' env) =
     (\<not> truthy (get_prop fields' ''override'') \<and>
      \<not> truthy (first_defined [get_prop fields' ''N8N_JOB_SEARCH_WEBHOOK_URL'',
          getEnvironmentVariable env ''N8N_JOB_SEARCH_WEBHOOK_URL'',
          get_prop fields' ''N8N_WEBHOOK_URL'',
          getEnvironmentVariable env ''N8N_WEBHOOK_URL'']))
   \<and> (isl (N8NTool_constructor fields' env) \<longrightarrow>
        N8NTool_constructor fields' env = Inl (Error ''Missing N8N_WEBHOOK_URL environment variable. Please configure your N8N webhook URL in the environment settings.''))
   \<and> (isl (JobSearchTool_constructor fields' env) \<longrightarrow>
        JobSearchTool_constructor fields' env = Inl (Error ''Missing N8N_JOB_SEARCH_WEBHOOK_URL or N8N_WEBHOOK_URL environment variable. Please configure your N8N job search webhook URL in the environment settings.''))
   \<and> (\<not> truthy (get_prop fields' ''override'') \<and>
      no_url (get_prop fields' ''N8N_WEBHOOK_URL'') \<and>
      no_url (getEnvironmentVariable env ''N8N_WEBHOOK_URL'')
    \<longrightarrow> N8NTool_constructor fields' env = Inl (Error ''Missing N8N_WEBHOOK_URL environment variable. Please configure your N8N webhook URL in the environment settings.''))
   \<and> (\<not> truthy (get_prop fields' ''override'') \<and>
      no_url (get_prop fields' ''N8N_JOB_SEARCH_WEBHOOK_URL'') \<and>
      no_url (getEnvironmentVariable env ''N8N_JOB_SEARCH_WEBHOOK_URL'') \<and>
      no_url (get_prop fields' ''N8N_WEBHOOK_URL'') \<and>
      no_url (getEnvironmentVariable env ''N8N_WEBHOOK_URL'')
    \<longrightarrow> JobSearchTool_constructor fields' env = Inl (Error ''Missing N8N_JOB_SEARCH_WEBHOOK_URL or N8N_WEBHOOK_URL environment variable. Please configure your N8N job search webhook URL in the environment settings.''))
   \<and> (first_defined [get_prop fields' ''N8N_WEBHOOK_URL'', getEnvironmentVariable env ''N8N_WEBHOOK_URL''] = JStr u \<and> u \<noteq> []
    \<longrightarrow> (\<exists>this. N8NTool_constructor fields' env = Inr this \<and> webhookUrl this = JStr u))
   \<and> (first_defined [get_prop fields' ''N8N_JOB_SEARCH_WEBHOOK_URL'',
          getEnvironmentVariable env ''N8N_JOB_SEARCH_WEBHOOK_URL'',
          get_prop fields' ''N8N_WEBHOOK_URL'',
          getEnvironmentVariable env ''N8N_WEBHOOK_URL''] = JStr u \<and> u \<noteq> []
    \<longrightarrow> (\<exists>this. JobSearchTool_constructor fields' env = Inr this \<and> webhookUrl this = JStr u))"
proof (intro conjI impI)
  assume h: "\<not> truthy (get_prop fields' ''override'') \<and>
      no_url (get_prop fields' ''N8N_WEBHOOK_URL'') \<and>
      no_url (getEnvironmentVariable env ''N8N_WEBHOOK_URL'')"
  then have "\<not> truthy (first_defined [get_prop fields' ''N8N_WEBHOOK_URL'', getEnvironmentVariable env ''N8N_WEBHOOK_URL''])"
    by (intro first_defined_no_url) (simp del: first_defined.simps)
  with h show "N8NTool_constructor fields' env = Inl (Error ''Missing N8N_WEBHOOK_URL environment variable. Please configure your N8N webhook URL in the environment settings.'')"
    by (simp add: N8NTool_constructor_cases del: first_defined.simps)
next
  assume h: "\<not> truthy (get_prop fields' ''override'') \<and>
      no_url (get_prop fields' ''N8N_JOB_SEARCH_WEBHOOK_URL'') \<and>
      no_url (getEnvironmentVariable env ''N8N_JOB_SEARCH_WEBHOOK_URL'') \<and>
      no_url (get_prop fields' ''N8N_WEBHOOK_URL'') \<and>
      no_url (getEnvironmentVariable env ''N8N_WEBHOOK_URL'')"
  then have "\<not> truthy (first_defined [get_prop fields' ''N8N_JOB_SEARCH_WEBHOOK_URL'',
          getEnvironmentVariable env ''N8N_JOB_SEARCH_WEBHOOK_URL'',
          get_prop fields' ''N8N_WEBHOOK_URL'',
          getEnvironmentVariable env ''N8N_WEBHOOK_URL''])"
    by (intro first_defined_no_url) (simp del: first_defined.simps)
  with h show "JobSearchTool_constructor fields' env = Inl (Error ''Missing N8N_JOB_SEARCH_WEBHOOK_URL or N8N_WEBHOOK_URL environment variable. Please configure your N8N job search webhook URL in the environment settings.'')"
    by (simp add: JobSearchTool_constructor_cases del: first_defined.simps)
next
  assume h: "first_defined [get_prop fields' ''N8N_WEBHOOK_URL'', getEnvironmentVariable env ''N8N_WEBHOOK_URL''] = JStr u \<and> u \<noteq> []"
  then have "truthy (first_defined [get_prop fields' ''N8N_WEBHOOK_URL'', getEnvironmentVariable env ''N8N_WEBHOOK_URL''])"
    by (simp del: first_defined.simps)
  with h show "\<exists>this. N8NTool_constructor fields' env = Inr this \<and> webhookUrl this = JStr u"
    by (simp add: N8NTool_constructor_cases del: first_defined.simps)
next
  assume h: "first_defined [get_prop fields' ''N8N_JOB_SEARCH_WEBHOOK_URL'',
          getEnvironmentVariable env ''N8N_JOB_SEARCH_WEBHOOK_URL'',
          get_prop fields' ''N8N_WEBHOOK_URL'',
          getEnvironmentVariable env ''N8N_WEBHOOK_URL''] = JStr u \<and> u \<noteq> []"
  then have "truthy (first_defined [get_prop fields' ''N8N_JOB_SEARCH_WEBHOOK_URL'',
          getEnvironmentVariable env ''N8N_JOB_SEARCH_WEBHOOK_URL'',
          get_prop fields' ''N8N_WEBHOOK_URL'',
          getEnvironmentVariable env ''N8N_WEBHOOK_URL''])"
    by (simp del: first_defined.simps)
  with h show "\<exists>this. JobSearchTool_constructor fields' env = Inr this \<and> webhookUrl this = JStr u"
    by (simp add: JobSearchTool_constructor_cases del: first_defined.simps)
qed (auto simp add: N8NTool_constructor_cases JobSearchTool_constructor_cases simp del: first_defined.simps split: if_splits)

theorem construction_requires_endpoint_witness:
  "N8NTool_constructor [] [] = Inl (Error ''Missing N8N_WEBHOOK_URL environment variable. Please configure your N8N webhook URL in the environment settings.'')
   \<and> JobSearchTool_constructor [] [] = Inl (Error ''Missing N8N_JOB_SEARCH_WEBHOOK_URL or N8N_WEBHOOK_URL environment variable. Please configure your N8N job search webhook URL in the environment settings.'')
   \<and> isl (N8NTool_constructor [] [(''N8N_WEBHOOK_URL'', ''http://n8n.test/webhook/a'')]) = False
   \<and> isl (JobSearchTool_constructor [(''N8N_WEBHOOK_URL'', JStr ''http://n8n.test/webhook/a'')] []) = False
   \<and> isl (N8NTool_constructor [(''N8N_WEBHOOK_URL'', JStr '''')]
        [(''N8N_WEBHOOK_URL'', ''http://n8n.test/webhook/a'')]) = True
   \<and> isl (JobSearchTool_constructor [(''N8N_JOB_SEARCH_WEBHOOK_URL'', JStr '''')]
        [(''N8N_WEBHOOK_URL'', ''http://n8n.test/webhook/a'')]) = True
   \<and> N8NTool_constructor [(''N8N_WEBHOOK_URL'', JStr '''')]
        [(''N8N_WEBHOOK_URL'', ''http://n8n.test/webhook/a'')] =
      Inl (Error ''Missing N8N_WEBHOOK_URL environment variable. Please configure your N8N webhook URL in the environment settings.'')
   \<and> JobSearchTool_constructor [(''N8N_JOB_SEARCH_WEBHOOK_URL'', JStr '''')]
        [(''N8N_WEBHOOK_URL'', ''http://n8n.test/webhook/a'')] =
      Inl (Error ''Missing N8N_JOB_SEARCH_WEBHOOK_URL or N8N_WEBHOOK_URL environment variable. Please configure your N8N job search webhook URL in the environment settings.'')"
proof -
  note c1 = conjunct1
  note c2 = conjunct2
  note ev = get_prop_def getEnvironmentVariable_def no_url_def
  have a: "N8NTool_constructor [] [] =
      Inl (Error ''Missing N8N_WEBHOOK_URL environment variable. Please configure your N8N webhook URL in the environment settings.'')"
    using construction_requires_endpoint [of "[]" "[]" "''x''", THEN c2, THEN c2, THEN c2, THEN c2, THEN c1]
    by (simp add: ev)
  have b: "JobSearchTool_constructor [] [] =
      Inl (Error ''Missing N8N_JOB_SEARCH_WEBHOOK_URL or N8N_WEBHOOK_URL environment variable. Please configure your N8N job search webhook URL in the environment settings.'')"
    using construction_requires_endpoint [of "[]" "[]" "''x''", THEN c2, THEN c2, THEN c2, THEN c2, THEN c2, THEN c1]
    by (simp add: ev)
  have c: "isl (N8NTool_constructor [] [(''N8N_WEBHOOK_URL'', ''http://n8n.test/webhook/a'')]) = False"
    using construction_requires_endpoint [of "[]" "[(''N8N_WEBHOOK_URL'', ''http://n8n.test/webhook/a'')]"
        "''http://n8n.test/webhook/a''", THEN c2, THEN c2, THEN c2, THEN c2, THEN c2, THEN c2, THEN c1]
    by (auto simp add: ev)
  have d: "isl (JobSearchTool_constructor [(''N8N_WEBHOOK_URL'', JStr ''http://n8n.test/webhook/a'')] []) = False"
    using construction_requires_endpoint [of "[(''N8N_WEBHOOK_URL'', JStr ''http://n8n.test/webhook/a'')]" "[]"
        "''http://n8n.test/webhook/a''", THEN c2, THEN c2, THEN c2, THEN c2, THEN c2, THEN c2, THEN c2]
    by (auto simp add: ev)
  have e: "isl (N8NTool_constructor [(''N8N_WEBHOOK_URL'', JStr '''')]
        [(''N8N_WEBHOOK_URL'', ''http://n8n.test/webhook/a'')]) = True"
    using construction_requires_endpoint [of "[(''N8N_WEBHOOK_URL'', JStr '''')]"
        "[(''N8N_WEBHOOK_URL'', ''http://n8n.test/webhook/a'')]" "''x''", THEN c1]
    by (simp add: ev)
  have f: "isl (JobSearchTool_constructor [(''N8N_JOB_SEARCH_WEBHOOK_URL'', JStr '''')]
        [(''N8N_WEBHOOK_URL'', ''http://n8n.test/webhook/a'')]) = True"
    using construction_requires_endpoint [of "[(''N8N_JOB_SEARCH_WEBHOOK_URL'', JStr '''')]"
        "[(''N8N_WEBHOOK_URL'', ''http://n8n.test/webhook/a'')]" "''x''", THEN c2, THEN c1]
    by (simp add: ev)
  have g: "N8NTool_constructor [(''N8N_WEBHOOK_URL'', JStr '''')]
        [(''N8N_WEBHOOK_URL'', ''http://n8n.test/webhook/a'')] =
      Inl (Error ''Missing N8N_WEBHOOK_URL environment variable. Please configure your N8N webhook URL in the environment settings.'')"
    using e construction_requires_endpoint [of "[(''N8N_WEBHOOK_URL'', JStr '''')]"
        "[(''N8N_WEBHOOK_URL'', ''http://n8n.test/webhook/a'')]" "''x''", THEN c2, THEN c2, THEN c1]
    by simp
  have h: "JobSearchTool_constructor [(''N8N_JOB_SEARCH_WEBHOOK_URL'', JStr '''')]
        [(''N8N_WEBHOOK_URL'', ''http://n8n.test/webhook/a'')] =
      Inl (Error ''Missing N8N_JOB_SEARCH_WEBHOOK_URL or N8N_WEBHOOK_URL environment variable. Please configure your N8N job search webhook URL in the environment settings.'')"
    using f construction_requires_endpoint [of "[(''N8N_JOB_SEARCH_WEBHOOK_URL'', JStr '''')]"
        "[(''N8N_WEBHOOK_URL'', ''http://n8n.test/webhook/a'')]" "''x''", THEN c2, THEN c2, THEN c2, THEN c1]
    by simp
  from a b c d e f g h show ?thesis by simp
qed

text \<open>
  A URL resolvable from some source does not keep construction from throwing: the empty
  string in the constructor field, or in the job-search field, is a defined value for
  \<^verbatim>\<open>??\<close> and hides the URL of the environment variable behind it, and \<^verbatim>\<open>!\<close> rejects it.
\<close>

theorem construction_requires_endpoint_counterexample:
  "holds_url
     [get_prop [(''N8N_WEBHOOK_URL'', JStr '''')] ''N8N_WEBHOOK_URL'',
      getEnvironmentVariable [(''N8N_WEBHOOK_URL'', ''http://env.test/generic'')] ''N8N_WEBHOOK_URL'']
   \<and> N8NTool_constructor [(''N8N_WEBHOOK_URL'', JStr '''')] [(''N8N_WEBHOOK_URL'', ''http://env.test/generic'')]
       = Inl (Error ''Missing N8N_WEBHOOK_URL environment variable. Please configure your N8N webhook URL in the environment settings.'')
   \<and> holds_url
     [get_prop [(''N8N_JOB_SEARCH_WEBHOOK_URL'', JStr '''')] ''N8N_JOB_SEARCH_WEBHOOK_URL'',
      getEnvironmentVariable [(''N8N_WEBHOOK_URL'', ''http://env.test/generic'')] ''N8N_JOB_SEARCH_WEBHOOK_URL'',
      get_prop [(''N8N_JOB_SEARCH_WEBHOOK_URL'', JStr '''')] ''N8N_WEBHOOK_URL'',
      getEnvironmentVariable [(''N8N_WEBHOOK_URL'', ''http://env.test/generic'')] ''N8N_WEBHOOK_URL'']
   \<and> JobSearchTool_constructor [(''N8N_JOB_SEARCH_WEBHOOK_URL'', JStr '''')]
         [(''N8N_WEBHOOK_URL'', ''http://env.test/generic'')]
       = Inl (Error ''Missing N8N_JOB_SEARCH_WEBHOOK_URL or N8N_WEBHOOK_URL environment variable. Please configure your N8N job search webhook URL in the environment settings.'')"
  by (simp add: constructor_eval)

text \<open>
  C5. Structured adapter: an input that fails the schema makes the call raise before any
  request is handed to the HTTP client. The message is \<^verbatim>\<open>Input validation failed: \<close>
  followed by the issues, of which there is at least one, each written as its path joined
  by dots, a colon and the reason, and joined by a comma and a space.
\<close>

theorem invalid_criteria_raise_before_request:
  "N8NTool_constructor fields' env = Inr this \<and> safeParse N8NTool_schema input = Inl issues \<longrightarrow>
     N8NTool_call this post sentAt executedAt input =
       ([], Inl (Error (''Input validation failed: '' @
                  join '', '' (map (\<lambda>i. join ''.'' (map path_elem_string (issue_path i)) @ '': '' @ issue_message i)
                    issues))))
     \<and> issues \<noteq> []"
proof
  assume h: "N8NTool_constructor fields' env = Inr this \<and> safeParse N8NTool_schema input = Inl issues"
  then have "safeParse (schema this) input = Inl issues"
    by (auto dest: N8NTool_constructor_schema)
  then have "N8NTool_call this post sentAt executedAt input = ([], Inl (validation_error issues))"
    by (rule N8NTool_call_invalid)
  moreover have "(\<lambda>i. join ''.'' (map path_elem_string (issue_path i)) @ '': '' @ issue_message i) = issue_text"
    by (rule ext) (simp add: issue_text_def)
  moreover from h have "issues \<noteq> []" using safeParse_issues_nonempty by blast
  ultimately show "N8NTool_call this post sentAt executedAt input =
       ([], Inl (Error (''Input validation failed: '' @
                  join '', '' (map (\<lambda>i. join ''.'' (map path_elem_string (issue_path i)) @ '': '' @ issue_message i)
                    issues))))
     \<and> issues \<noteq> []"
    by (simp add: validation_error_def)
qed

theorem invalid_criteria_raise_before_request_witness:
  "N8NTool_constructor
     [(''N8N_WEBHOOK_URL'', JStr ''http://n8n.test/webhook/jobs''), (''N8N_API_KEY'', JStr ''s3cret''),
      (''N8N_TIMEOUT'', JNum 50)] [] = Inr n8n_example
   \<and> safeParse N8NTool_schema
        (JObj [(''workflow_data'', JObj [(''salary_min'', JStr ''10''), (''skills'', JArr [JStr ''a'', JNum 3])])])
       = Inl [\<lparr> issue_path = [Key ''workflow_data'', Key ''skills'', Index 1],
                 issue_message = ''Expected string, received number'' \<rparr>,
              \<lparr> issue_path = [Key ''workflow_data'', Key ''salary_min''],
                 issue_message = ''Expected number, received string'' \<rparr>]
   \<and> N8NTool_call n8n_example echo_endpoint ''2025-03-01T09:00:00.000Z'' ''2025-03-01T09:00:00.250Z''
        (JObj [(''workflow_data'', JObj [(''salary_min'', JStr ''10''), (''skills'', JArr [JStr ''a'', JNum 3])])])
       = ([], Inl (Error ''Input validation failed: workflow_data.skills.1: Expected string, received number, workflow_data.salary_min: Expected number, received string''))"
proof -
  have c: "N8NTool_constructor
     [(''N8N_WEBHOOK_URL'', JStr ''http://n8n.test/webhook/jobs''), (''N8N_API_KEY'', JStr ''s3cret''),
      (''N8N_TIMEOUT'', JNum 50)] [] = Inr n8n_example"
    by (simp add: constructor_eval n8n_example_def)
  have v: "safeParse N8NTool_schema
        (JObj [(''workflow_data'', JObj [(''salary_min'', JStr ''10''), (''skills'', JArr [JStr ''a'', JNum 3])])])
       = Inl [\<lparr> issue_path = [Key ''workflow_data'', Key ''skills'', Index 1],
                 issue_message = ''Expected string, received number'' \<rparr>,
              \<lparr> issue_path = [Key ''workflow_data'', Key ''salary_min''],
                 issue_message = ''Expected number, received string'' \<rparr>]"
    by (simp add: schema_eval)
  have n: "show_nat 1 = ''1''"
    by (simp add: show_nat.simps digit_char_def)
  show ?thesis
    using c v n invalid_criteria_raise_before_request [of
        "[(''N8N_WEBHOOK_URL'', JStr ''http://n8n.test/webhook/jobs''), (''N8N_API_KEY'', JStr ''s3cret''),
          (''N8N_TIMEOUT'', JNum 50)]" "[]" n8n_example
        "JObj [(''workflow_data'', JObj [(''salary_min'', JStr ''10''), (''skills'', JArr [JStr ''a'', JNum 3])])]"
        "[\<lparr> issue_path = [Key ''workflow_data'', Key ''skills'', Index 1],
                 issue_message = ''Expected string, received number'' \<rparr>,
              \<lparr> issue_path = [Key ''workflow_data'', Key ''salary_min''],
                 issue_message = ''Expected number, received string'' \<rparr>]"
        echo_endpoint "''2025-03-01T09:00:00.000Z''" "''2025-03-01T09:00:00.250Z''"]
    by simp
qed

text \<open>
  C6, amended. Free-text adapter: the call raises the validation error, in the format of
  the structured adapter, when the input is not an object or its \<^verbatim>\<open>query\<close> is absent or not
  a string. Every input whose \<^verbatim>\<open>query\<close> is a string, the empty string included, passes
  validation, and the request with the body \<^verbatim>\<open>{query}\<close> is handed to the HTTP client.
\<close>

theorem query_must_be_a_string:
  "(JobSearchTool_constructor fields' env = Inr this \<and> get_prop kvs ''query'' = JStr q \<longrightarrow>
      fst (JobSearchTool_call this post (JObj kvs)) = [JobSearchTool_request this (JObj [(''query'', JStr q)])]
      \<and> req_body (JobSearchTool_request this (JObj [(''query'', JStr q)])) = JObj [(''query'', JStr q)]
      \<and> \<not> isl (snd (JobSearchTool_call this post (JObj kvs))))
   \<and> (JobSearchTool_constructor fields' env = Inr this \<and> getParsedType (get_prop kvs ''query'') \<noteq> ''string'' \<longrightarrow>
      JobSearchTool_call this post (JObj kvs) =
        ([], Inl (validation_error [invalid_type [Key ''query''] ''string'' (get_prop kvs ''query'')])))
   \<and> (JobSearchTool_constructor fields' env = Inr this \<and> getParsedType input \<noteq> ''object'' \<longrightarrow>
      JobSearchTool_call this post input = ([], Inl (validation_error [invalid_type [] ''object'' input])))"
proof (intro conjI impI)
  assume h: "JobSearchTool_constructor fields' env = Inr this \<and> get_prop kvs ''query'' = JStr q"
  then have "safeParse (schema this) (JObj kvs) = Inr (JObj [(''query'', JStr q)])"
    by (auto dest: JobSearchTool_constructor_schema simp add: JobSearchTool_schema_object)
  then show "fst (JobSearchTool_call this post (JObj kvs)) = [JobSearchTool_request this (JObj [(''query'', JStr q)])]"
    and "\<not> isl (snd (JobSearchTool_call this post (JObj kvs)))"
    by (simp_all add: JobSearchTool_call_valid)
  show "req_body (JobSearchTool_request this (JObj [(''query'', JStr q)])) = JObj [(''query'', JStr q)]"
    by (simp add: JobSearchTool_request_def get_prop_def)
next
  assume h: "JobSearchTool_constructor fields' env = Inr this \<and> getParsedType (get_prop kvs ''query'') \<noteq> ''string''"
  then have "safeParse (schema this) (JObj kvs) = Inl [invalid_type [Key ''query''] ''string'' (get_prop kvs ''query'')]"
    by (auto dest: JobSearchTool_constructor_schema simp add: JobSearchTool_schema_object)
  then show "JobSearchTool_call this post (JObj kvs) =
        ([], Inl (validation_error [invalid_type [Key ''query''] ''string'' (get_prop kvs ''query'')]))"
    by (rule JobSearchTool_call_invalid)
next
  assume h: "JobSearchTool_constructor fields' env = Inr this \<and> getParsedType input \<noteq> ''object''"
  then have "safeParse (schema this) input = Inl [invalid_type [] ''object'' input]"
    by (auto dest: JobSearchTool_constructor_schema simp add: JobSearchTool_schema_not_object)
  then show "JobSearchTool_call this post input = ([], Inl (validation_error [invalid_type [] ''object'' input]))"
    by (rule JobSearchTool_call_invalid)
qed

theorem query_must_be_a_string_witness:
  "JobSearchTool_constructor
     [(''N8N_JOB_SEARCH_WEBHOOK_URL'', JStr ''http://n8n.test/webhook/search''), (''N8N_TIMEOUT'', JNum 50)] []
     = Inr job_search_example
   \<and> fst (JobSearchTool_call job_search_example jobs_endpoint (JObj [(''query'', JStr ''dev jobs'')]))
       = [\<lparr> req_url = JStr ''http://n8n.test/webhook/search'', req_body = JObj [(''query'', JStr ''dev jobs'')],
             req_headers = [(''Content-Type'', ''application/json'')], req_timeout = JNum 50 \<rparr>]
   \<and> JobSearchTool_call job_search_example jobs_endpoint (JObj [])
       = ([], Inl (Error ''Input validation failed: query: Required''))
   \<and> JobSearchTool_call job_search_example jobs_endpoint (JObj [(''query'', JNum 7)])
       = ([], Inl (Error ''Input validation failed: query: Expected string, received number''))
   \<and> JobSearchTool_call job_search_example jobs_endpoint (JStr ''dev jobs'')
       = ([], Inl (Error ''Input validation failed: : Expected object, received string''))"
proof -
  have c: "JobSearchTool_constructor
     [(''N8N_JOB_SEARCH_WEBHOOK_URL'', JStr ''http://n8n.test/webhook/search''), (''N8N_TIMEOUT'', JNum 50)] []
     = Inr job_search_example"
    by (simp add: constructor_eval job_search_example_def)
  note t = query_must_be_a_string [where fields' = "[(''N8N_JOB_SEARCH_WEBHOOK_URL'', JStr ''http://n8n.test/webhook/search''), (''N8N_TIMEOUT'', JNum 50)]"
      and env = "[]" and this = job_search_example and post = jobs_endpoint]
  show ?thesis
    using c t [where kvs = "[(''query'', JStr ''dev jobs'')]" and q = "''dev jobs''" and input = "JStr ''dev jobs''"]
      t [where kvs = "[]" and q = "''dev jobs''" and input = "JStr ''dev jobs''"]
      t [where kvs = "[(''query'', JNum 7)]" and q = "''dev jobs''" and input = "JStr ''dev jobs''"]
    by (simp add: get_prop_def validation_error_def issue_text_def invalid_type_def
        JobSearchTool_request_def request_headers_def job_search_example_def)
qed

text \<open>
  The schema is \<^verbatim>\<open>z.string()\<close> without a minimum length: the empty query passes validation
  and is sent.
\<close>

theorem query_must_be_a_string_counterexample:
  "JobSearchTool_constructor
     [(''N8N_JOB_SEARCH_WEBHOOK_URL'', JStr ''http://n8n.test/webhook/search''), (''N8N_TIMEOUT'', JNum 50)] []
     = Inr job_search_example
   \<and> \<not> isl (snd (JobSearchTool_call job_search_example jobs_endpoint (JObj [(''query'', JStr '''')])))
   \<and> fst (JobSearchTool_call job_search_example jobs_endpoint (JObj [(''query'', JStr '''')]))
       = [\<lparr> req_url = JStr ''http://n8n.test/webhook/search'', req_body = JObj [(''query'', JStr '''')],
             req_headers = [(''Content-Type'', ''application/json'')], req_timeout = JNum 50 \<rparr>]"
  by (simp add: constructor_eval job_search_example_def JobSearchTool_call_def schema_eval
      JobSearchTool_request_def request_headers_def)

text \<open>
  C7, amended. Free-text adapter: the endpoint URL is resolved at construction in the
  order constructor field \<^verbatim>\<open>N8N_JOB_SEARCH_WEBHOOK_URL\<close>, environment variable
  \<^verbatim>\<open>N8N_JOB_SEARCH_WEBHOOK_URL\<close>, constructor field \<^verbatim>\<open>N8N_WEBHOOK_URL\<close>, environment
  variable \<^verbatim>\<open>N8N_WEBHOOK_URL\<close>; the first source that is neither \<^verbatim>\<open>undefined\<close> nor
  \<^verbatim>\<open>null\<close> wins.
\<close>

theorem endpoint_resolution_order:
  "JobSearchTool_constructor fields' env = Inr this \<longrightarrow>
     webhookUrl this =
       first_defined
         [get_prop fields' ''N8N_JOB_SEARCH_WEBHOOK_URL'',
          getEnvironmentVariable env ''N8N_JOB_SEARCH_WEBHOOK_URL'',
          get_prop fields' ''N8N_WEBHOOK_URL'',
          getEnvironmentVariable env ''N8N_WEBHOOK_URL'']"
proof
  assume "JobSearchTool_constructor fields' env = Inr this"
  then have "webhookUrl this =
         coalesce (coalesce (coalesce (get_prop fields' ''N8N_JOB_SEARCH_WEBHOOK_URL'')
            (getEnvironmentVariable env ''N8N_JOB_SEARCH_WEBHOOK_URL''))
            (get_prop fields' ''N8N_WEBHOOK_URL''))
            (getEnvironmentVariable env ''N8N_WEBHOOK_URL'')"
    by (auto simp add: JobSearchTool_constructor_def Let_def split: if_splits)
  then show "webhookUrl this =
       first_defined
         [get_prop fields' ''N8N_JOB_SEARCH_WEBHOOK_URL'',
          getEnvironmentVariable env ''N8N_JOB_SEARCH_WEBHOOK_URL'',
          get_prop fields' ''N8N_WEBHOOK_URL'',
          getEnvironmentVariable env ''N8N_WEBHOOK_URL'']"
    by (simp add: coalesce_first_defined)
qed

theorem endpoint_resolution_order_witness:
  "JobSearchTool_constructor
      [(''N8N_WEBHOOK_URL'', JStr ''http://fields.test/generic'')]
      [(''N8N_JOB_SEARCH_WEBHOOK_URL'', ''http://env.test/search''), (''N8N_WEBHOOK_URL'', ''http://env.test/generic'')]
    = Inr \<lparr> name = ''job_search'', override = JBool False,
            webhookUrl = JStr ''http://env.test/search'', apiKey = JUndefined,
            timeout = JNum 30000, schema = JobSearchTool_schema \<rparr>
   \<and> JStr ''http://env.test/search'' =
       first_defined
         [get_prop [(''N8N_WEBHOOK_URL'', JStr ''http://fields.test/generic'')] ''N8N_JOB_SEARCH_WEBHOOK_URL'',
          getEnvironmentVariable [(''N8N_JOB_SEARCH_WEBHOOK_URL'', ''http://env.test/search''), (''N8N_WEBHOOK_URL'', ''http://env.test/generic'')] ''N8N_JOB_SEARCH_WEBHOOK_URL'',
          get_prop [(''N8N_WEBHOOK_URL'', JStr ''http://fields.test/generic'')] ''N8N_WEBHOOK_URL'',
          getEnvironmentVariable [(''N8N_JOB_SEARCH_WEBHOOK_URL'', ''http://env.test/search''), (''N8N_WEBHOOK_URL'', ''http://env.test/generic'')] ''N8N_WEBHOOK_URL'']"
proof -
  have c: "JobSearchTool_constructor
      [(''N8N_WEBHOOK_URL'', JStr ''http://fields.test/generic'')]
      [(''N8N_JOB_SEARCH_WEBHOOK_URL'', ''http://env.test/search''), (''N8N_WEBHOOK_URL'', ''http://env.test/generic'')]
    = Inr \<lparr> name = ''job_search'', override = JBool False,
            webhookUrl = JStr ''http://env.test/search'', apiKey = JUndefined,
            timeout = JNum 30000, schema = JobSearchTool_schema \<rparr>"
    by (simp add: constructor_eval)
  show ?thesis
    using c endpoint_resolution_order
        [of "[(''N8N_WEBHOOK_URL'', JStr ''http://fields.test/generic'')]"
          "[(''N8N_JOB_SEARCH_WEBHOOK_URL'', ''http://env.test/search''), (''N8N_WEBHOOK_URL'', ''http://env.test/generic'')]"
          "\<lparr> name = ''job_search'', override = JBool False,
            webhookUrl = JStr ''http://env.test/search'', apiKey = JUndefined,
            timeout = JNum 30000, schema = JobSearchTool_schema \<rparr>"]
    by simp
qed

text \<open>
  The order of the specification's wording, both environment variables before any
  constructor argument, is not the order of the source: a constructor field wins over the
  environment variable of the same name.
\<close>

theorem endpoint_resolution_order_counterexample:
  "map_sum id webhookUrl
     (JobSearchTool_constructor
        [(''N8N_JOB_SEARCH_WEBHOOK_URL'', JStr ''http://fields.test/search'')]
        [(''N8N_JOB_SEARCH_WEBHOOK_URL'', ''http://env.test/search'')])
     = Inr (JStr ''http://fields.test/search'')
   \<and> specified_endpoint_resolution
        [(''N8N_JOB_SEARCH_WEBHOOK_URL'', JStr ''http://fields.test/search'')]
        [(''N8N_JOB_SEARCH_WEBHOOK_URL'', ''http://env.test/search'')]
     = JStr ''http://env.test/search''
   \<and> map_sum id webhookUrl
     (JobSearchTool_constructor
        [(''N8N_JOB_SEARCH_WEBHOOK_URL'', JStr ''http://fields.test/search'')]
        [(''N8N_JOB_SEARCH_WEBHOOK_URL'', ''http://env.test/search'')])
     \<noteq> Inr (specified_endpoint_resolution
        [(''N8N_JOB_SEARCH_WEBHOOK_URL'', JStr ''http://fields.test/search'')]
        [(''N8N_JOB_SEARCH_WEBHOOK_URL'', ''http://env.test/search'')])"
  by (simp add: constructor_eval specified_endpoint_resolution_def no_url_def)

text \<open>
  C8. For both adapters: when the HTTP client gives up on the request after the configured
  timeout (it rejects with the code \<^verbatim>\<open>ECONNABORTED\<close>), the request carried the configured
  timeout and the call returns the pretty-printed JSON of
  \<^verbatim>\<open>{success: false, error, message, timeout}\<close>, whose \<^verbatim>\<open>error\<close> names the timeout and whose
  \<^verbatim>\<open>timeout\<close> is the configured value. The configured value is 30000 when the constructor
  field is absent or \<^verbatim>\<open>null\<close> and the environment variable is not set.
\<close>

theorem timeout_yields_failure_envelope:
  "(safeParse (schema this) input = Inr d \<and> post (N8NTool_request this sentAt d) = Rejected e
      \<and> err_code e = JStr ''ECONNABORTED'' \<longrightarrow>
      req_timeout (N8NTool_request this sentAt d) = timeout this \<and>
      snd (N8NTool_call this post sentAt executedAt input) =
        Inr (JSON_stringify (JObj
          [(''success'', JBool False),
           (''error'', JStr ''Workflow execution timeout''),
           (''message'', JStr (''The N8N workflow did not complete within '' @ ToString (timeout this) @
              ''ms. The workflow may still be running on N8N.'')),
           (''timeout'', timeout this)])))
   \<and> (safeParse (schema this) input = Inr d \<and> post (JobSearchTool_request this d) = Rejected e
      \<and> err_code e = JStr ''ECONNABORTED'' \<longrightarrow>
      req_timeout (JobSearchTool_request this d) = timeout this \<and>
      snd (JobSearchTool_call this post input) =
        Inr (JSON_stringify (JObj
          [(''success'', JBool False),
           (''error'', JStr ''Job search timeout''),
           (''message'', JStr (''The job search did not complete within '' @ ToString (timeout this) @
              ''ms. Please try again with more specific criteria.'')),
           (''timeout'', timeout this)])))
   \<and> (N8NTool_constructor fields' env = Inr this
      \<and> nullish (get_prop fields' ''N8N_TIMEOUT'') \<and> map_of env ''N8N_TIMEOUT'' = None \<longrightarrow>
      timeout this = JNum 30000)
   \<and> (JobSearchTool_constructor fields' env = Inr this
      \<and> nullish (get_prop fields' ''N8N_TIMEOUT'') \<and> map_of env ''N8N_TIMEOUT'' = None \<longrightarrow>
      timeout this = JNum 30000)"
proof (intro conjI impI)
  assume "N8NTool_constructor fields' env = Inr this
      \<and> nullish (get_prop fields' ''N8N_TIMEOUT'') \<and> map_of env ''N8N_TIMEOUT'' = None"
  then show "timeout this = JNum 30000"
    by (auto dest!: N8NTool_constructor_timeout simp add: coalesce_def getEnvironmentVariable_def)
next
  assume "JobSearchTool_constructor fields' env = Inr this
      \<and> nullish (get_prop fields' ''N8N_TIMEOUT'') \<and> map_of env ''N8N_TIMEOUT'' = None"
  then show "timeout this = JNum 30000"
    by (auto dest!: JobSearchTool_constructor_timeout simp add: coalesce_def getEnvironmentVariable_def)
qed (simp_all add: N8NTool_call_valid JobSearchTool_call_valid N8NTool_catch_def JobSearchTool_catch_def
       N8NTool_request_def JobSearchTool_request_def Let_def)

theorem timeout_yields_failure_envelope_witness:
  "safeParse (schema n8n_example) (JObj [(''workflow_data'', JObj [])]) = Inr (JObj [(''workflow_data'', JObj [])])
   \<and> silent_endpoint (N8NTool_request n8n_example ''2025-03-01T09:00:00.000Z'' (JObj [(''workflow_data'', JObj [])])) = Rejected timeout_error
   \<and> err_code timeout_error = JStr ''ECONNABORTED''
   \<and> safeParse (schema job_search_example) (JObj [(''query'', JStr ''x'')]) = Inr (JObj [(''query'', JStr ''x'')])
   \<and> silent_endpoint (JobSearchTool_request job_search_example (JObj [(''query'', JStr ''x'')])) = Rejected timeout_error
   \<and> snd (N8NTool_call n8n_example silent_endpoint ''2025-03-01T09:00:00.000Z'' ''2025-03-01T09:00:00.250Z'' (JObj [(''workflow_data'', JObj [])])) =
        Inr (JSON_stringify (JObj
          [(''success'', JBool False),
           (''error'', JStr ''Workflow execution timeout''),
           (''message'', JStr ''The N8N workflow did not complete within 50ms. The workflow may still be running on N8N.''),
           (''timeout'', JNum 50)]))
   \<and> snd (JobSearchTool_call job_search_example silent_endpoint (JObj [(''query'', JStr ''x'')])) =
        Inr (JSON_stringify (JObj
          [(''success'', JBool False),
           (''error'', JStr ''Job search timeout''),
           (''message'', JStr ''The job search did not complete within 50ms. Please try again with more specific criteria.''),
           (''timeout'', JNum 50)]))
   \<and> map_sum id timeout (N8NTool_constructor [(''N8N_WEBHOOK_URL'', JStr ''http://n8n.test/webhook/jobs'')] []) = Inr (JNum 30000)
   \<and> map_sum id timeout (JobSearchTool_constructor [(''N8N_WEBHOOK_URL'', JStr ''http://n8n.test/webhook/jobs'')] []) = Inr (JNum 30000)"
proof -
  have v1: "safeParse (schema n8n_example) (JObj [(''workflow_data'', JObj [])]) = Inr (JObj [(''workflow_data'', JObj [])])"
    by (simp add: n8n_example_def schema_eval)
  have v2: "safeParse (schema job_search_example) (JObj [(''query'', JStr ''x'')]) = Inr (JObj [(''query'', JStr ''x'')])"
    by (simp add: job_search_example_def schema_eval)
  have t: "timeout n8n_example = JNum 50" "timeout job_search_example = JNum 50" "ToString (JNum 50) = ''50''"
    by (simp_all add: n8n_example_def job_search_example_def json_eval)
  have c1: "N8NTool_constructor [(''N8N_WEBHOOK_URL'', JStr ''http://n8n.test/webhook/jobs'')] [] =
      Inr \<lparr> name = ''n8n_workflow'', override = JBool False,
            webhookUrl = JStr ''http://n8n.test/webhook/jobs'', apiKey = JUndefined,
            timeout = JNum 30000, schema = N8NTool_schema \<rparr>"
    by (simp add: constructor_eval)
  have c2: "JobSearchTool_constructor [(''N8N_WEBHOOK_URL'', JStr ''http://n8n.test/webhook/jobs'')] [] =
      Inr \<lparr> name = ''job_search'', override = JBool False,
            webhookUrl = JStr ''http://n8n.test/webhook/jobs'', apiKey = JUndefined,
            timeout = JNum 30000, schema = JobSearchTool_schema \<rparr>"
    by (simp add: constructor_eval)
  show ?thesis
    using v1 v2 t c1 c2
      timeout_yields_failure_envelope [of n8n_example "JObj [(''workflow_data'', JObj [])]"
        "JObj [(''workflow_data'', JObj [])]" silent_endpoint "''2025-03-01T09:00:00.000Z''" timeout_error "''2025-03-01T09:00:00.250Z''"]
      timeout_yields_failure_envelope [of job_search_example "JObj [(''query'', JStr ''x'')]"
        "JObj [(''query'', JStr ''x'')]" silent_endpoint "''2025-03-01T09:00:00.000Z''" timeout_error "''2025-03-01T09:00:00.250Z''"]
      timeout_yields_failure_envelope [where fields' = "[(''N8N_WEBHOOK_URL'', JStr ''http://n8n.test/webhook/jobs'')]"
        and env = "[]" and this = "\<lparr> name = ''n8n_workflow'', override = JBool False,
            webhookUrl = JStr ''http://n8n.test/webhook/jobs'', apiKey = JUndefined,
            timeout = JNum 30000, schema = N8NTool_schema \<rparr>"]
      timeout_yields_failure_envelope [where fields' = "[(''N8N_WEBHOOK_URL'', JStr ''http://n8n.test/webhook/jobs'')]"
        and env = "[]" and this = "\<lparr> name = ''job_search'', override = JBool False,
            webhookUrl = JStr ''http://n8n.test/webhook/jobs'', apiKey = JUndefined,
            timeout = JNum 30000, schema = JobSearchTool_schema \<rparr>"]
    by (simp add: silent_endpoint_def timeout_error_def)
qed

text \<open>
  C9. For both adapters and every call whose input passes validation: the request handed to
  the HTTP client carries the header \<^verbatim>\<open>Authorization: Bearer <key>\<close> next to the content
  type when an API key is configured, and the content type alone, without any
  \<^verbatim>\<open>Authorization\<close> header, when none is.
\<close>

theorem authorization_header_iff_api_key:
  "(safeParse (schema this) input = Inr d \<and> truthy (apiKey this) \<longrightarrow>
      (\<exists>r. fst (N8NTool_call this post sentAt executedAt input) = [r]
           \<and> req_headers r = [(''Content-Type'', ''application/json''),
                (''Authorization'', ''Bearer '' @ ToString (apiKey this))]))
   \<and> (safeParse (schema this) input = Inr d \<and> truthy (apiKey this) \<longrightarrow>
      (\<exists>r. fst (JobSearchTool_call this post input) = [r]
           \<and> req_headers r = [(''Content-Type'', ''application/json''),
                (''Authorization'', ''Bearer '' @ ToString (apiKey this))]))
   \<and> (safeParse (schema this) input = Inr d \<and> \<not> truthy (apiKey this) \<longrightarrow>
      (\<exists>r. fst (N8NTool_call this post sentAt executedAt input) = [r]
           \<and> req_headers r = [(''Content-Type'', ''application/json'')]))
   \<and> (safeParse (schema this) input = Inr d \<and> \<not> truthy (apiKey this) \<longrightarrow>
      (\<exists>r. fst (JobSearchTool_call this post input) = [r]
           \<and> req_headers r = [(''Content-Type'', ''application/json'')]))"
  by (simp add: N8NTool_call_valid JobSearchTool_call_valid N8NTool_request_def
      JobSearchTool_request_def request_headers_def Let_def)

theorem authorization_header_iff_api_key_witness:
  "safeParse (schema n8n_example) (JObj [(''workflow_data'', JObj [])]) = Inr (JObj [(''workflow_data'', JObj [])])
   \<and> safeParse (schema job_search_example) (JObj [(''query'', JStr ''x'')]) = Inr (JObj [(''query'', JStr ''x'')])
   \<and> truthy (apiKey n8n_example)
   \<and> \<not> truthy (apiKey job_search_example)
   \<and> map req_headers (fst (N8NTool_call n8n_example echo_endpoint ''2025-03-01T09:00:00.000Z'' ''2025-03-01T09:00:00.250Z'' (JObj [(''workflow_data'', JObj [])])))
       = [(''Content-Type'', ''application/json''), (''Authorization'', ''Bearer s3cret'')] # []
   \<and> map req_headers (fst (N8NTool_call (n8n_example\<lparr>apiKey := JUndefined\<rparr>) echo_endpoint ''2025-03-01T09:00:00.000Z'' ''2025-03-01T09:00:00.250Z'' (JObj [(''workflow_data'', JObj [])])))
       = [(''Content-Type'', ''application/json'')] # []
   \<and> map req_headers (fst (JobSearchTool_call (job_search_example\<lparr>apiKey := JStr ''s3cret''\<rparr>) jobs_endpoint (JObj [(''query'', JStr ''x'')])))
       = [(''Content-Type'', ''application/json''), (''Authorization'', ''Bearer s3cret'')] # []
   \<and> map req_headers (fst (JobSearchTool_call job_search_example jobs_endpoint (JObj [(''query'', JStr ''x'')])))
       = [(''Content-Type'', ''application/json'')] # []"
proof -
  have v1: "safeParse (schema n8n_example) (JObj [(''workflow_data'', JObj [])]) = Inr (JObj [(''workflow_data'', JObj [])])"
    by (simp add: n8n_example_def schema_eval)
  have v2: "safeParse (schema job_search_example) (JObj [(''query'', JStr ''x'')]) = Inr (JObj [(''query'', JStr ''x'')])"
    by (simp add: job_search_example_def schema_eval)
  have k: "apiKey n8n_example = JStr ''s3cret''" "apiKey job_search_example = JUndefined"
    by (simp_all add: n8n_example_def job_search_example_def)
  show ?thesis
    using v1 v2 k
      authorization_header_iff_api_key [of n8n_example "JObj [(''workflow_data'', JObj [])]"
        "JObj [(''workflow_data'', JObj [])]" echo_endpoint "''2025-03-01T09:00:00.000Z''" "''2025-03-01T09:00:00.250Z''"]
      authorization_header_iff_api_key [of "n8n_example\<lparr>apiKey := JUndefined\<rparr>" "JObj [(''workflow_data'', JObj [])]"
        "JObj [(''workflow_data'', JObj [])]" echo_endpoint "''2025-03-01T09:00:00.000Z''" "''2025-03-01T09:00:00.250Z''"]
      authorization_header_iff_api_key [of "job_search_example\<lparr>apiKey := JStr ''s3cret''\<rparr>" "JObj [(''query'', JStr ''x'')]"
        "JObj [(''query'', JStr ''x'')]" jobs_endpoint "''2025-03-01T09:00:00.000Z''" "''2025-03-01T09:00:00.250Z''"]
      authorization_header_iff_api_key [of job_search_example "JObj [(''query'', JStr ''x'')]"
        "JObj [(''query'', JStr ''x'')]" jobs_endpoint "''2025-03-01T09:00:00.000Z''" "''2025-03-01T09:00:00.250Z''"]
    by auto
qed



end
